theory Spec2Isabelle
  imports Main "HOL-Library.Sublist"
begin

section \<open>Strings as the program sees them\<close>

text \<open>
  A JavaScript string is modelled as a \<^typ>\<open>string\<close>: a list of code units, here the
  code units below 256.  The helpers below are the string methods the converters,
  the detector and the validator call.
\<close>

definition js_whitespace :: "char \<Rightarrow> bool" where
  \<comment> \<open>the white space and line terminator code units below 256: TAB, LF, VT, FF, CR,
      SPACE and NO-BREAK SPACE\<close>
  "js_whitespace c \<longleftrightarrow>
     c \<in> set [CHR 0x09, CHR 0x0A, CHR 0x0B, CHR 0x0C, CHR 0x0D, CHR 0x20, CHR 0xA0]"

definition trim :: "string \<Rightarrow> string" where
  \<comment> \<open>\<^verbatim>\<open>String.prototype.trim\<close>\<close>
  "trim s = rev (dropWhile js_whitespace (rev (dropWhile js_whitespace s)))"

fun split_on :: "char \<Rightarrow> string \<Rightarrow> string list" where
  \<comment> \<open>\<^verbatim>\<open>s.split(c)\<close> for a separator of one character; the result is never empty\<close>
  "split_on c [] = [[]]"
| "split_on c (x # xs) =
     (if x = c then [] # split_on c xs
      else (case split_on c xs of
              [] \<Rightarrow> [[x]]
            | y # ys \<Rightarrow> (x # y) # ys))"

definition js_lower :: "char \<Rightarrow> char" where
  \<comment> \<open>\<^verbatim>\<open>toLowerCase\<close> on one code unit below 256: the ASCII capitals and the Latin-1
      capitals (0xC0 to 0xDE, but not the multiplication sign 0xD7) move by 32\<close>
  "js_lower c =
     (let n = (of_char c :: nat)
      in if (65 \<le> n \<and> n \<le> 90) \<or> (192 \<le> n \<and> n \<le> 222 \<and> n \<noteq> 215)
         then char_of (n + 32) else c)"

definition toLowerCase :: "string \<Rightarrow> string" where
  "toLowerCase s = map js_lower s"

fun includes_str :: "string \<Rightarrow> string \<Rightarrow> bool" where
  \<comment> \<open>\<^verbatim>\<open>s.includes(sub)\<close> on strings\<close>
  "includes_str [] sub = (sub = [])"
| "includes_str (x # xs) sub = (prefix sub (x # xs) \<or> includes_str xs sub)"

fun join_with :: "string \<Rightarrow> string list \<Rightarrow> string" where
  \<comment> \<open>\<^verbatim>\<open>parts.join(sep)\<close>\<close>
  "join_with sep [] = []"
| "join_with sep [x] = x"
| "join_with sep (x # y # ys) = x @ sep @ join_with sep (y # ys)"

subsection \<open>Regular expressions\<close>

text \<open>
  Every regular expression of the program is a sequence of literals, anchors and
  character classes, a class being matched once or repeated (greedily or lazily).
  \<open>x+\<close> is \<open>One x\<close> followed by \<open>StarGreedy x\<close>, and \<open>x+?\<close> is \<open>One x\<close> followed by
  \<open>StarLazy x\<close>.  The matcher backtracks in the order of the JavaScript matcher: a
  greedy repetition first tries to take one more character, a lazy one first tries to
  go on with the rest of the pattern.
\<close>

datatype cclass =
    CAny                \<comment> \<open>\<^verbatim>\<open>[\s\S]\<close>, and \<^verbatim>\<open>.\<close> under the flag \<^verbatim>\<open>s\<close>\<close>
  | CDot                \<comment> \<open>\<^verbatim>\<open>.\<close>: any character but a line terminator\<close>
  | CSpace              \<comment> \<open>\<^verbatim>\<open>\s\<close>\<close>
  | CSet "char list"    \<comment> \<open>a bracket expression, its members listed\<close>

definition line_terminator :: "char \<Rightarrow> bool" where
  "line_terminator c \<longleftrightarrow> c = CHR 0x0A \<or> c = CHR 0x0D"

fun cclass_ok :: "cclass \<Rightarrow> char \<Rightarrow> bool" where
  "cclass_ok CAny c = True"
| "cclass_ok CDot c = (\<not> line_terminator c)"
| "cclass_ok CSpace c = js_whitespace c"
| "cclass_ok (CSet cs) c = (c \<in> set cs)"

datatype ritem =
    Lit string
  | One cclass
  | StarGreedy cclass
  | StarLazy cclass
  | Bos     \<comment> \<open>\<^verbatim>\<open>^\<close> without the flag \<^verbatim>\<open>m\<close>: the start of the input\<close>
  | Bol     \<comment> \<open>\<^verbatim>\<open>^\<close> under the flag \<^verbatim>\<open>m\<close>: the start of the input or of a line\<close>
  | Eos     \<comment> \<open>\<^verbatim>\<open>$\<close> without the flag \<^verbatim>\<open>m\<close>: the end of the input\<close>

definition prev_after :: "char option \<Rightarrow> string \<Rightarrow> char option" where
  "prev_after prev l = (if l = [] then prev else Some (last l))"

definition add_seg :: "string \<Rightarrow> (string list \<times> string) option \<Rightarrow> (string list \<times> string) option" where
  "add_seg seg r = (case r of None \<Rightarrow> None | Some (segs, rest) \<Rightarrow> Some (seg # segs, rest))"

definition grow_seg :: "char \<Rightarrow> (string list \<times> string) option \<Rightarrow> (string list \<times> string) option" where
  "grow_seg x r =
     (case r of
        Some (seg # segs, rest) \<Rightarrow> Some ((x # seg) # segs, rest)
      | _ \<Rightarrow> None)"

text \<open>
  \<open>rmatch items prev s\<close> matches the pattern at the start of \<open>s\<close>, where \<open>prev\<close> is the
  character before \<open>s\<close> in the input (\<^const>\<open>None\<close> at the start of the input).  It
  returns the text each item has consumed, and the rest of the input.
\<close>

fun rmatch :: "ritem list \<Rightarrow> char option \<Rightarrow> string \<Rightarrow> (string list \<times> string) option" where
  "rmatch [] prev s = Some ([], s)"
| "rmatch (Lit l # r) prev s =
     (if prefix l s then add_seg l (rmatch r (prev_after prev l) (drop (length l) s))
      else None)"
| "rmatch (One c # r) prev [] = None"
| "rmatch (One c # r) prev (x # xs) =
     (if cclass_ok c x then add_seg [x] (rmatch r (Some x) xs) else None)"
| "rmatch (StarGreedy c # r) prev [] = add_seg [] (rmatch r prev [])"
| "rmatch (StarGreedy c # r) prev (x # xs) =
     (if cclass_ok c x then
        (case grow_seg x (rmatch (StarGreedy c # r) (Some x) xs) of
           Some m \<Rightarrow> Some m
         | None \<Rightarrow> add_seg [] (rmatch r prev (x # xs)))
      else add_seg [] (rmatch r prev (x # xs)))"
| "rmatch (StarLazy c # r) prev [] = add_seg [] (rmatch r prev [])"
| "rmatch (StarLazy c # r) prev (x # xs) =
     (case add_seg [] (rmatch r prev (x # xs)) of
        Some m \<Rightarrow> Some m
      | None \<Rightarrow>
          (if cclass_ok c x then grow_seg x (rmatch (StarLazy c # r) (Some x) xs)
           else None))"
| "rmatch (Bos # r) prev s = (if prev = None then add_seg [] (rmatch r prev s) else None)"
| "rmatch (Bol # r) prev s =
     (if (case prev of None \<Rightarrow> True | Some p \<Rightarrow> line_terminator p)
      then add_seg [] (rmatch r prev s) else None)"
| "rmatch (Eos # r) prev s = (if s = [] then add_seg [] (rmatch r prev s) else None)"

text \<open>
  \<open>rsearch\<close> is the search for the leftmost match, as \<^verbatim>\<open>match\<close>, \<^verbatim>\<open>test\<close> and \<^verbatim>\<open>replace\<close>
  do it for a pattern without the flag \<^verbatim>\<open>g\<close>: it returns the text before the match,
  the texts consumed by the items, and the text after the match.
\<close>

fun rsearch :: "ritem list \<Rightarrow> char option \<Rightarrow> string \<Rightarrow> (string \<times> string list \<times> string) option" where
  "rsearch r prev [] =
     (case rmatch r prev [] of
        Some (segs, rest) \<Rightarrow> Some ([], segs, rest)
      | None \<Rightarrow> None)"
| "rsearch r prev (x # xs) =
     (case rmatch r prev (x # xs) of
        Some (segs, rest) \<Rightarrow> Some ([], segs, rest)
      | None \<Rightarrow>
          (case rsearch r (Some x) xs of
             Some (before, segs, rest) \<Rightarrow> Some (x # before, segs, rest)
           | None \<Rightarrow> None))"

definition regex_test :: "ritem list \<Rightarrow> string \<Rightarrow> bool" where
  \<comment> \<open>\<^verbatim>\<open>re.test(s)\<close>, and the truth value of \<^verbatim>\<open>s.match(re)\<close>\<close>
  "regex_test r s = (rsearch r None s \<noteq> None)"

definition remove_first :: "ritem list \<Rightarrow> string \<Rightarrow> string" where
  \<comment> \<open>\<^verbatim>\<open>s.replace(re, '')\<close>: the leftmost match is cut out, if there is one\<close>
  "remove_first r s =
     (case rsearch r None s of
        None \<Rightarrow> s
      | Some (before, segs, rest) \<Rightarrow> before @ rest)"

section \<open>Tool-permission mapper\<close>

text \<open>
  Both converters declare the same list of all available tools, in the same order
  (\<^verbatim>\<open>allTools\<close> in \<^verbatim>\<open>_convertAllowedToolsToExclude\<close> and in
  \<^verbatim>\<open>_convertExcludeToAllowedTools\<close>).
\<close>

definition allTools :: "string list" where
  "allTools =
     [''Read'', ''Write'', ''Edit'', ''Glob'', ''Grep'', ''Bash'', ''Task'',
      ''WebFetch'', ''WebSearch'', ''TodoWrite'', ''AskUserQuestion'',
      ''SlashCommand'', ''Skill'', ''NotebookEdit'', ''BashOutput'', ''KillShell'']"

text \<open>
  The value of the \<^verbatim>\<open>allowed-tools\<close> frontmatter field, as far as the converter tells
  values apart: an array, a string (a comma separated list), or anything else.
\<close>

datatype tools_value = ToolsArray "string list" | ToolsString string | ToolsOther

definition normalizeAllowed :: "tools_value \<Rightarrow> string list" where
  \<comment> \<open>"Normalize allowed tools to array": \<^verbatim>\<open>allowed\<close> stays \<^verbatim>\<open>[]\<close> for a value that is
      neither an array nor a string\<close>
  "normalizeAllowed v =
     (case v of
        ToolsArray xs \<Rightarrow> xs
      | ToolsString s \<Rightarrow> map trim (split_on (CHR '','') s)
      | ToolsOther \<Rightarrow> [])"

definition toolWarning :: string where
  "toolWarning =
     ''Tool restrictions may not translate exactly - review excludeTools in gemini-extension.json''"

definition pushWarning :: "string list option \<Rightarrow> string \<Rightarrow> string list option" where
  \<comment> \<open>\<^verbatim>\<open>this.metadata.warnings = this.metadata.warnings || []\<close>, then \<^verbatim>\<open>push\<close>;
      \<^const>\<open>None\<close> is the field before its first use (undefined)\<close>
  "pushWarning w msg = Some ((case w of None \<Rightarrow> [] | Some ws \<Rightarrow> ws) @ [msg])"

definition convertAllowedToolsToExclude ::
  "tools_value \<Rightarrow> string list option \<Rightarrow> string list \<times> string list option" where
  \<comment> \<open>\<^verbatim>\<open>ClaudeToGeminiConverter._convertAllowedToolsToExclude\<close>; the second argument and
      the second component of the result are \<^verbatim>\<open>this.metadata.warnings\<close> before and
      after the call\<close>
  "convertAllowedToolsToExclude allowedTools warnings =
     (let allowed = normalizeAllowed allowedTools;
          excluded = filter (\<lambda>tool. tool \<notin> set allowed) allTools
      in if length excluded > length allowed then (excluded, warnings)
         else ([], pushWarning warnings toolWarning))"

definition convertExcludeToAllowedTools :: "string list \<Rightarrow> string list" where
  \<comment> \<open>\<^verbatim>\<open>GeminiToClaudeConverter._convertExcludeToAllowedTools\<close>\<close>
  "convertExcludeToAllowedTools excludeTools =
     filter (\<lambda>tool. tool \<notin> set excludeTools) allTools"

section \<open>Settings inference\<close>

text \<open>
  A server configuration, as in the \<^verbatim>\<open>mcpServers\<close> map of either manifest.  A value of
  the environment map is a string or something else (\<^verbatim>\<open>typeof value === 'string'\<close>).
  A map is the list of its entries, in the order of \<^verbatim>\<open>Object.entries\<close>.
\<close>

datatype env_value = EnvString string | EnvOther

record server_config =
  command :: "string option"
  args :: "string list option"
  env :: "(string \<times> env_value) list option"

type_synonym mcp_servers = "(string \<times> server_config) list"

text \<open>
  A property read \<^verbatim>\<open>table[key]\<close> on an object literal finds the literal's own entry, or
  else what every object inherits from \<^verbatim>\<open>Object.prototype\<close> (a function, or the
  prototype itself under \<^verbatim>\<open>__proto__\<close>), or nothing.
\<close>

datatype 'a property = Own 'a | Inherited | Missing

definition objectPrototypeKeys :: "string list" where
  "objectPrototypeKeys =
     [''constructor'', ''__defineGetter__'', ''__defineSetter__'', ''hasOwnProperty'',
      ''__lookupGetter__'', ''__lookupSetter__'', ''isPrototypeOf'',
      ''propertyIsEnumerable'', ''toString'', ''valueOf'', ''__proto__'',
      ''toLocaleString'']"

definition js_get :: "(string \<times> 'a) list \<Rightarrow> string \<Rightarrow> 'a property" where
  "js_get obj k =
     (case map_of obj k of
        Some v \<Rightarrow> Own v
      | None \<Rightarrow> if k \<in> set objectPrototypeKeys then Inherited else Missing)"

datatype description_value =
    DescriptionString string
  | DescriptionInherited   \<comment> \<open>a value inherited from the prototype, not a string\<close>

record setting =
  setting_name :: string
  setting_description :: description_value
  secret :: "bool option"
  required :: "bool option"
  setting_default :: "string option"

definition descriptions :: "(string \<times> string) list" where
  "descriptions =
     [(''DB_HOST'', ''Database server hostname''),
      (''DB_PORT'', ''Database server port''),
      (''DB_NAME'', ''Database name''),
      (''DB_USER'', ''Database username''),
      (''DB_PASSWORD'', ''Database password''),
      (''API_KEY'', ''API authentication key''),
      (''API_SECRET'', ''API secret''),
      (''API_URL'', ''API endpoint URL''),
      (''HOST'', ''Server hostname''),
      (''PORT'', ''Server port'')]"

definition defaults :: "(string \<times> string) list" where
  \<comment> \<open>each entry of the table is an object with the one field \<^verbatim>\<open>default\<close>\<close>
  "defaults =
     [(''DB_HOST'', ''localhost''),
      (''DB_PORT'', ''5432''),
      (''HOST'', ''localhost''),
      (''PORT'', ''8080''),
      (''API_URL'', ''https://api.example.com'')]"

definition capitalizeWord :: "string \<Rightarrow> string" where
  \<comment> \<open>\<^verbatim>\<open>word.charAt(0) + word.slice(1).toLowerCase()\<close>\<close>
  "capitalizeWord word = (case word of [] \<Rightarrow> [] | c # cs \<Rightarrow> c # toLowerCase cs)"

definition inferDescription :: "string \<Rightarrow> description_value" where
  \<comment> \<open>\<^verbatim>\<open>_inferDescription\<close>: the table entry when it is truthy, else the name split at
      underscores, each word capitalised\<close>
  "inferDescription varName =
     (let generated =
            DescriptionString (join_with '' '' (map capitalizeWord (split_on (CHR ''_'') varName)))
      in case js_get descriptions varName of
           Own d \<Rightarrow> if d \<noteq> [] then DescriptionString d else generated
         | Inherited \<Rightarrow> DescriptionInherited
         | Missing \<Rightarrow> generated)"

definition inferDefaults :: "string \<Rightarrow> string property" where
  \<comment> \<open>\<^verbatim>\<open>_inferDefaults\<close>: \<^verbatim>\<open>defaults[varName] || null\<close>\<close>
  "inferDefaults varName = js_get defaults varName"

definition placeholderPattern :: "ritem list" where
  \<comment> \<open>\<^verbatim>\<open>/\$\{(.+)\}/\<close>; the group is what the second and the third item consume\<close>
  "placeholderPattern = [Lit ''${'', One CDot, StarGreedy CDot, Lit ''}'']"

definition placeholderName :: "env_value \<Rightarrow> string option" where
  \<comment> \<open>\<^verbatim>\<open>typeof value === 'string' && value.match(/\$\{(.+)\}/)\<close>, then group 1\<close>
  "placeholderName v =
     (case v of
        EnvOther \<Rightarrow> None
      | EnvString s \<Rightarrow>
          (case rsearch placeholderPattern None s of
             Some (before, [l1, g1, g2, l2], rest) \<Rightarrow> Some (g1 @ g2)
           | _ \<Rightarrow> None))"

definition looksSecret :: "string \<Rightarrow> bool" where
  "looksSecret varName \<longleftrightarrow>
     includes_str (toLowerCase varName) ''password'' \<or>
     includes_str (toLowerCase varName) ''secret'' \<or>
     includes_str (toLowerCase varName) ''token'' \<or>
     includes_str (toLowerCase varName) ''key''"

definition inferSetting :: "string \<Rightarrow> setting" where
  \<comment> \<open>the body of the loop of \<^verbatim>\<open>_inferSettingsFromMCPConfig\<close> for a new variable:
      \<^verbatim>\<open>Object.assign(setting, defaults)\<close> copies the field \<^verbatim>\<open>default\<close> of a table
      entry, and nothing from an inherited value, which has no enumerable field\<close>
  "inferSetting varName =
     (let setting = \<lparr>setting_name = varName,
                      setting_description = inferDescription varName,
                      secret = None, required = None, setting_default = None\<rparr>;
          setting = (if looksSecret varName
                     then setting\<lparr>secret := Some True, required := Some True\<rparr>
                     else setting)
      in case inferDefaults varName of
           Own d \<Rightarrow> setting\<lparr>setting_default := Some d\<rparr>
         | _ \<Rightarrow> setting)"

fun inferFromEnv ::
  "(string \<times> env_value) list \<Rightarrow> setting list \<times> string set \<Rightarrow> setting list \<times> string set" where
  \<comment> \<open>the inner loop; the state is \<^verbatim>\<open>settings\<close> and \<^verbatim>\<open>seenVars\<close>\<close>
  "inferFromEnv [] st = st"
| "inferFromEnv ((key, v) # es) (settings, seenVars) =
     (case placeholderName v of
        None \<Rightarrow> inferFromEnv es (settings, seenVars)
      | Some varName \<Rightarrow>
          if varName \<in> seenVars then inferFromEnv es (settings, seenVars)
          else inferFromEnv es (settings @ [inferSetting varName], insert varName seenVars))"

fun inferFromServers ::
  "mcp_servers \<Rightarrow> setting list \<times> string set \<Rightarrow> setting list \<times> string set" where
  \<comment> \<open>the outer loop\<close>
  "inferFromServers [] st = st"
| "inferFromServers ((serverName, config) # cs) st =
     inferFromServers cs (case env config of None \<Rightarrow> st | Some e \<Rightarrow> inferFromEnv e st)"

definition inferSettingsFromMCPConfig :: "mcp_servers \<Rightarrow> setting list" where
  \<comment> \<open>\<^verbatim>\<open>ClaudeToGeminiConverter._inferSettingsFromMCPConfig\<close>\<close>
  "inferSettingsFromMCPConfig mcpServers = fst (inferFromServers mcpServers ([], {}))"

text \<open>
  The names the loops capture, in the order of the traversal: what the pattern of the
  program reads out of each value.  They describe the loops in closed form and are no
  statement of the specification.
\<close>

definition envCaptured :: "(string \<times> env_value) list \<Rightarrow> string list" where
  "envCaptured e = List.map_filter (\<lambda>(key, v). placeholderName v) e"

definition captured :: "mcp_servers \<Rightarrow> string list" where
  "captured mcpServers =
     concat (map (\<lambda>(serverName, config).
                    case env config of None \<Rightarrow> [] | Some e \<Rightarrow> envCaptured e)
                 mcpServers)"

text \<open>
  The words of the specification, to compare the loops with.  A name is one or more
  characters other than \<^verbatim>\<open>}\<close>.  A value references a variable when it matches the
  placeholder grammar: \<^verbatim>\<open>${\<close>, a name, and \<^verbatim>\<open>}\<close>.  The names referenced by a map of servers
  are those of the values of all environment maps, in the order of the traversal.
\<close>

definition specName :: "string \<Rightarrow> bool" where
  "specName n \<longleftrightarrow> n \<noteq> [] \<and> CHR ''}'' \<notin> set n"

definition specPlaceholder :: "env_value \<Rightarrow> string option" where
  "specPlaceholder v =
     (case v of
        EnvOther \<Rightarrow> None
      | EnvString s \<Rightarrow>
          if prefix ''${'' s \<and> suffix ''}'' s \<and> specName (butlast (drop 2 s))
          then Some (butlast (drop 2 s)) else None)"

definition referenced :: "mcp_servers \<Rightarrow> string list" where
  "referenced mcpServers =
     concat (map (\<lambda>(serverName, config).
                    case env config of
                      None \<Rightarrow> []
                    | Some e \<Rightarrow> List.map_filter (\<lambda>(key, v). specPlaceholder v) e)
                 mcpServers)"

fun first_seen :: "'a list \<Rightarrow> 'a set \<Rightarrow> 'a list" where
  "first_seen [] seen = []"
| "first_seen (x # xs) seen =
     (if x \<in> seen then first_seen xs seen else x # first_seen xs (insert x seen))"

definition description_present :: "description_value \<Rightarrow> bool" where
  \<comment> \<open>the descriptor has a description: a text that is not empty.  A value read
      off the prototype is none: it is a function, which is left out when the
      manifest is written, or the prototype object itself\<close>
  "description_present d =
     (case d of DescriptionString t \<Rightarrow> t \<noteq> [] | DescriptionInherited \<Rightarrow> False)"

section \<open>Documents\<close>

text \<open>
  The documents of the two schemas, with the fields the program reads.  A field that
  may be missing is an option; \<^const>\<open>None\<close> is \<^verbatim>\<open>undefined\<close>.  Where the program tells
  an array from other values (\<^verbatim>\<open>Array.isArray\<close>), the field has a constructor for each.
\<close>

record frontmatter =
  fm_name :: "string option"
  fm_description :: "string option"
  fm_allowed_tools :: "tools_value option"

record plugin =
  plugin_name :: "string option"
  plugin_description :: "string option"
  plugin_keywords :: "string list option"
  plugin_mcpServers :: "mcp_servers option"

datatype plugins_value = PluginsArray "plugin list" | PluginsOther

record marketplace_metadata =
  mm_description :: "string option"
  mm_version :: "string option"

record marketplace =
  mp_name :: "string option"
  mp_metadata :: "marketplace_metadata option"
  mp_plugins :: "plugins_value option"

record manifest_setting =
  ms_name :: "string option"
  ms_description :: "string option"
  ms_default :: "string option"
  ms_required :: "bool option"

text \<open>
  The value of \<^verbatim>\<open>excludeTools\<close>, as far as the program tells values apart: an array
  (its elements strings or not), a string, an object whose field \<^verbatim>\<open>length\<close> is
  greater than zero, or another truthy value (a number, \<^verbatim>\<open>true\<close>, an object without
  such a length).  A falsy value other than the empty string counts as a missing
  field.  The value of \<^verbatim>\<open>settings\<close> likewise; the elements of an array of settings are
  taken to be objects.
\<close>

datatype element = ElementString string | ElementOther

datatype exclude_value =
    ExcludeArray "element list"
  | ExcludeString string
  | ExcludeLengthy
  | ExcludeOther

datatype settings_value =
    SettingsArray "manifest_setting list"
  | SettingsString string
  | SettingsLengthy
  | SettingsOther

record gemini_manifest =
  gm_name :: "string option"
  gm_version :: "string option"
  gm_description :: "string option"
  gm_contextFileName :: "string option"
  gm_excludeTools :: "exclude_value option"
  gm_mcpServers :: "mcp_servers option"
  gm_settings :: "settings_value option"

text \<open>The manifest object that the converter to schema B builds and writes.\<close>

record generated_manifest =
  out_name :: "string option"
  out_version :: string
  out_description :: string
  out_contextFileName :: string
  out_mcpServers :: "mcp_servers option"
  out_excludeTools :: "string list option"
  out_settings :: "setting list option"

text \<open>
  What a parser of the runtime returns for a text: a syntax error with its message,
  the value \<^verbatim>\<open>null\<close> (reading a field of it throws), or a document.
\<close>

datatype 'a parsed = ParseError string | ParsedNull | Parsed 'a

text \<open>
  The functions of the runtime and of the YAML library that the program calls and that
  are no part of it: \<^verbatim>\<open>JSON.parse\<close> and \<^verbatim>\<open>JSON.stringify\<close> on the documents they are
  applied to, \<^verbatim>\<open>yaml.load\<close> and \<^verbatim>\<open>yaml.dump\<close>.  \<^verbatim>\<open>yaml.dump\<close> returns the text, or
  throws (\<^const>\<open>Inl\<close> with the message), as it does for an object it cannot write.
\<close>

record libs =
  parse_manifest :: "string \<Rightarrow> gemini_manifest parsed"
  parse_marketplace :: "string \<Rightarrow> marketplace parsed"
  stringify_manifest :: "generated_manifest \<Rightarrow> string"
  stringify_marketplace :: "marketplace \<Rightarrow> string"
  stringify_args :: "string list \<Rightarrow> string"
  yaml_load :: "string \<Rightarrow> frontmatter parsed"
  yaml_dump :: "frontmatter \<Rightarrow> string + string"

definition truthy :: "string option \<Rightarrow> bool" where
  \<comment> \<open>the truth value of a field that holds a string when it is there\<close>
  "truthy v = (case v of None \<Rightarrow> False | Some s \<Rightarrow> s \<noteq> [])"

definition or_else :: "string option \<Rightarrow> string \<Rightarrow> string" where
  \<comment> \<open>\<^verbatim>\<open>field || fallback\<close>\<close>
  "or_else v d = (case v of None \<Rightarrow> d | Some s \<Rightarrow> if s \<noteq> [] then s else d)"

definition template :: "string option \<Rightarrow> string" where
  \<comment> \<open>a field inside a template literal.  \<^const>\<open>None\<close> is a field that is missing; a
      field that holds \<^verbatim>\<open>null\<close> is not told apart from it in the documents, and would
      print as \<^verbatim>\<open>null\<close>\<close>
  "template v = (case v of None \<Rightarrow> ''undefined'' | Some s \<Rightarrow> s)"

section \<open>File system\<close>

text \<open>
  A path is the list of its segments below the root; the paths given to the program
  are absolute and normalised (the command line resolves them).  The file system maps
  a path to a file with its text, or to a directory.
\<close>

type_synonym path = "string list"

datatype node = File string | Dir

type_synonym filesystem = "path \<Rightarrow> node option"

definition lookup :: "filesystem \<Rightarrow> path \<Rightarrow> node option" where
  "lookup fs p = (if p = [] then Some Dir else fs p)"

definition path_string :: "path \<Rightarrow> string" where
  "path_string p = (if p = [] then ''/'' else concat (map ((@) ''/'') p))"

fun normalize :: "path \<Rightarrow> string list \<Rightarrow> path" where
  "normalize acc [] = acc"
| "normalize acc (seg # r) =
     (if seg = [] \<or> seg = ''.'' then normalize acc r
      else if seg = ''..'' then normalize (butlast acc) r
      else normalize (acc @ [seg]) r)"

definition path_join :: "path \<Rightarrow> string \<Rightarrow> path" where
  \<comment> \<open>\<^verbatim>\<open>path.join(dir, name)\<close>\<close>
  "path_join dir name = normalize dir (split_on (CHR ''/'') name)"

definition basename :: "path \<Rightarrow> string" where
  \<comment> \<open>\<^verbatim>\<open>path.basename(dirPath)\<close>\<close>
  "basename p = (if p = [] then [] else last p)"

text \<open>
  The errors of the file system calls, with the call that fails: reading a directory
  fails in \<^verbatim>\<open>read\<close> and names no path, the other errors name the call and the path.
\<close>

datatype io_error =
    ENOENT path            \<comment> \<open>\<^verbatim>\<open>open\<close> of a path that does not exist\<close>
  | EISDIR_read            \<comment> \<open>\<^verbatim>\<open>read\<close> of a directory\<close>
  | EISDIR_open path       \<comment> \<open>\<^verbatim>\<open>open\<close> of a directory for writing\<close>
  | ENOTDIR string path    \<comment> \<open>the call and a path below a file\<close>
  | EEXIST path            \<comment> \<open>\<^verbatim>\<open>mkdir\<close> of a path that is a file\<close>

definition quoted :: "path \<Rightarrow> string" where
  "quoted p = [CHR 0x27] @ path_string p @ [CHR 0x27]"

definition io_message :: "io_error \<Rightarrow> string" where
  "io_message e =
     (case e of
        ENOENT p \<Rightarrow> ''ENOENT: no such file or directory, open '' @ quoted p
      | EISDIR_read \<Rightarrow> ''EISDIR: illegal operation on a directory, read''
      | EISDIR_open p \<Rightarrow> ''EISDIR: illegal operation on a directory, open '' @ quoted p
      | ENOTDIR call p \<Rightarrow> ''ENOTDIR: not a directory, '' @ call @ '' '' @ quoted p
      | EEXIST p \<Rightarrow> ''EEXIST: file already exists, mkdir '' @ quoted p)"

definition below_file :: "filesystem \<Rightarrow> path \<Rightarrow> bool" where
  \<comment> \<open>a proper prefix of the path is a file\<close>
  "below_file fs p =
     list_ex (\<lambda>n. case lookup fs (take n p) of Some (File t) \<Rightarrow> True | _ \<Rightarrow> False)
       [0..<length p]"

definition fileExists :: "filesystem \<Rightarrow> path \<Rightarrow> bool" where
  \<comment> \<open>\<^verbatim>\<open>_fileExists\<close>: \<^verbatim>\<open>fs.access\<close> succeeds on a file and on a directory\<close>
  "fileExists fs p = (lookup fs p \<noteq> None)"

definition checkDirectoryExists :: "filesystem \<Rightarrow> path \<Rightarrow> bool" where
  \<comment> \<open>\<^verbatim>\<open>_checkDirectoryExists\<close>: \<^verbatim>\<open>fs.stat\<close>, then \<^verbatim>\<open>isDirectory()\<close>, false on any error\<close>
  "checkDirectoryExists fs p = (lookup fs p = Some Dir)"

definition readFile :: "filesystem \<Rightarrow> path \<Rightarrow> io_error + string" where
  "readFile fs p =
     (case lookup fs p of
        None \<Rightarrow> Inl (if below_file fs p then ENOTDIR ''open'' p else ENOENT p)
      | Some Dir \<Rightarrow> Inl EISDIR_read
      | Some (File text) \<Rightarrow> Inr text)"




section \<open>The minimal key and value parser\<close>

text \<open>
  The validator (\<^verbatim>\<open>_parseYAML\<close>) and the detector (the loop of
  \<^verbatim>\<open>_extractYAMLFrontmatter\<close>) read a metadata block with the same loop.  The object it
  fills is the list of its entries; the state of the loop is the object and
  \<^verbatim>\<open>currentKey\<close>.
\<close>

datatype yaml_value = YamlString string | YamlArray "string list"

type_synonym yaml_object = "(string \<times> yaml_value) list"

text \<open>
  The entries of an object stand in the order in which the language lists them: the
  keys that are array indices first, in ascending order, then the other keys in the
  order of their creation.  An assignment to an existing key keeps its place.
\<close>

definition is_digit :: "char \<Rightarrow> bool" where
  "is_digit c \<longleftrightarrow> 48 \<le> (of_char c :: nat) \<and> (of_char c :: nat) \<le> 57"

definition digits_value :: "string \<Rightarrow> nat" where
  "digits_value k = foldl (\<lambda>a c. 10 * a + ((of_char c :: nat) - 48)) 0 k"

definition array_index :: "string \<Rightarrow> nat option" where
  \<comment> \<open>the key is the canonical decimal numeral of an integer below \<open>2\<^sup>3\<^sup>2 - 1\<close>\<close>
  "array_index k =
     (if k \<noteq> [] \<and> list_all is_digit k \<and> (k = ''0'' \<or> take 1 k \<noteq> ''0'')
         \<and> digits_value k < 4294967295
      then Some (digits_value k) else None)"

fun obj_add :: "string \<Rightarrow> 'v \<Rightarrow> (string \<times> 'v) list \<Rightarrow> (string \<times> 'v) list" where
  \<comment> \<open>a new key takes its place\<close>
  "obj_add k v [] = [(k, v)]"
| "obj_add k v ((k', v') # r) =
     (case array_index k of
        None \<Rightarrow> (k', v') # obj_add k v r
      | Some n \<Rightarrow>
          (case array_index k' of
             None \<Rightarrow> (k, v) # (k', v') # r
           | Some n' \<Rightarrow> if n < n' then (k, v) # (k', v') # r else (k', v') # obj_add k v r))"

definition obj_set :: "string \<Rightarrow> 'v \<Rightarrow> (string \<times> 'v) list \<Rightarrow> (string \<times> 'v) list" where
  \<comment> \<open>the assignment \<^verbatim>\<open>obj[key] = value\<close>\<close>
  "obj_set k v obj =
     (if map_of obj k = None then obj_add k v obj
      else map (\<lambda>(k', v'). if k' = k then (k, v) else (k', v')) obj)"

definition parseLine :: "string \<Rightarrow> yaml_object \<times> string option \<Rightarrow> yaml_object \<times> string option" where
  \<comment> \<open>one turn of the loop.  An assignment to the key \<^verbatim>\<open>__proto__\<close> makes no entry: a
      string is ignored and an array becomes the prototype, to which the items that
      follow are pushed\<close>
  "parseLine line st =
     (let (parsed, currentKey) = st in
      if prefix ''-'' (trim line) then
        (case currentKey of
           None \<Rightarrow> st
         | Some k \<Rightarrow>
             if k = [] then st
             else (case map_of parsed k of
                     Some (YamlArray items) \<Rightarrow>
                       (obj_set k (YamlArray (items @ [trim (drop 1 (trim line))])) parsed,
                        currentKey)
                   | _ \<Rightarrow> st))
      else if CHR '':'' \<in> set line then
        (case split_on (CHR '':'') line of
           [] \<Rightarrow> st
         | key # valueParts \<Rightarrow>
             (let v = trim (join_with '':'' valueParts);
                  k = trim key
              in if k = ''__proto__'' then (parsed, Some k)
                 else if v = [] then (obj_set k (YamlArray []) parsed, Some k)
                 else (obj_set k (YamlString v) parsed, Some k)))
      else st)"

definition parseYAML :: "string \<Rightarrow> yaml_object" where
  "parseYAML yaml = fst (fold parseLine (split_on (CHR 0x0A) yaml) ([], None))"

definition frontmatterPattern :: "ritem list" where
  \<comment> \<open>\<^verbatim>\<open>/^---\n([\s\S]+?)\n---/\<close>; the group is what the third and the fourth item
      consume\<close>
  "frontmatterPattern =
     [Bos, Lit ''---\<newline>'', One CAny, StarLazy CAny, Lit ''\<newline>---'']"

definition frontmatterMatch :: "string \<Rightarrow> string option" where
  \<comment> \<open>group 1 of \<^verbatim>\<open>content.match(/^---\n([\s\S]+?)\n---/)\<close>, if the pattern matches\<close>
  "frontmatterMatch content =
     (case rsearch frontmatterPattern None content of
        Some (before, [a, b, g1, g2, c], rest) \<Rightarrow> Some (g1 @ g2)
      | _ \<Rightarrow> None)"

section \<open>Platform detector\<close>

datatype platform = CLAUDE | GEMINI | UNIVERSAL | UNKNOWN

definition platform_name :: "platform \<Rightarrow> string" where
  \<comment> \<open>\<^verbatim>\<open>PLATFORM_TYPES\<close>\<close>
  "platform_name p =
     (case p of
        CLAUDE \<Rightarrow> ''claude'' | GEMINI \<Rightarrow> ''gemini''
      | UNIVERSAL \<Rightarrow> ''universal'' | UNKNOWN \<Rightarrow> ''unknown'')"

record file_entry =
  fe_file :: string
  fe_type :: string
  fe_valid :: "bool option"
  fe_issue :: "string option"

record detection_metadata =
  md_claude :: "yaml_object option"
  md_claudeMarketplace :: "marketplace option option"
  md_gemini :: "gemini_manifest option option"

record detection =
  det_platform :: platform
  det_claude :: "file_entry list"
  det_gemini :: "file_entry list"
  det_shared :: "file_entry list"
  det_confidence :: string
  det_metadata :: detection_metadata

definition skillPath :: "path \<Rightarrow> path" where
  "skillPath dirPath = dirPath @ [''SKILL.md'']"

definition marketplacePath :: "path \<Rightarrow> path" where
  "marketplacePath dirPath = dirPath @ [''.claude-plugin'', ''marketplace.json'']"

definition manifestPath :: "path \<Rightarrow> path" where
  "manifestPath dirPath = dirPath @ [''gemini-extension.json'']"

definition isValidJSON :: "(string \<Rightarrow> 'a parsed) \<Rightarrow> filesystem \<Rightarrow> path \<Rightarrow> bool" where
  \<comment> \<open>\<^verbatim>\<open>_isValidJSON\<close>: reading and parsing inside one \<^verbatim>\<open>try\<close>\<close>
  "isValidJSON parse fs p =
     (case readFile fs p of
        Inl e \<Rightarrow> False
      | Inr text \<Rightarrow> (case parse text of ParseError m \<Rightarrow> False | _ \<Rightarrow> True))"

definition hasYAMLFrontmatter :: "filesystem \<Rightarrow> path \<Rightarrow> bool" where
  \<comment> \<open>\<^verbatim>\<open>_hasYAMLFrontmatter\<close>\<close>
  "hasYAMLFrontmatter fs p =
     (case readFile fs p of
        Inl e \<Rightarrow> False
      | Inr text \<Rightarrow> regex_test frontmatterPattern text)"

definition extractYAMLFrontmatter :: "filesystem \<Rightarrow> path \<Rightarrow> yaml_object option" where
  \<comment> \<open>\<^verbatim>\<open>_extractYAMLFrontmatter\<close>; \<^const>\<open>None\<close> is \<^verbatim>\<open>null\<close>\<close>
  "extractYAMLFrontmatter fs p =
     (case readFile fs p of
        Inl e \<Rightarrow> None
      | Inr text \<Rightarrow>
          (case frontmatterMatch text of
             None \<Rightarrow> None
           | Some yaml \<Rightarrow> Some (parseYAML yaml)))"

definition detectClaudeFiles :: "libs \<Rightarrow> filesystem \<Rightarrow> path \<Rightarrow> file_entry list" where
  \<comment> \<open>\<^verbatim>\<open>_detectClaudeFiles\<close>\<close>
  "detectClaudeFiles L fs dirPath =
     (if fileExists fs (skillPath dirPath) then
        (if hasYAMLFrontmatter fs (skillPath dirPath)
         then [\<lparr>fe_file = ''SKILL.md'', fe_type = ''entry'', fe_valid = Some True,
                 fe_issue = None\<rparr>]
         else [\<lparr>fe_file = ''SKILL.md'', fe_type = ''entry'', fe_valid = Some False,
                 fe_issue = Some ''Missing or invalid YAML frontmatter''\<rparr>])
      else [])
     @ (if fileExists fs (marketplacePath dirPath) then
          (if isValidJSON (parse_marketplace L) fs (marketplacePath dirPath)
           then [\<lparr>fe_file = ''.claude-plugin/marketplace.json'', fe_type = ''manifest'',
                   fe_valid = Some True, fe_issue = None\<rparr>]
           else [\<lparr>fe_file = ''.claude-plugin/marketplace.json'', fe_type = ''manifest'',
                   fe_valid = Some False, fe_issue = Some ''Invalid JSON''\<rparr>])
        else [])"

definition detectGeminiFiles :: "libs \<Rightarrow> filesystem \<Rightarrow> path \<Rightarrow> file_entry list" where
  \<comment> \<open>\<^verbatim>\<open>_detectGeminiFiles\<close>\<close>
  "detectGeminiFiles L fs dirPath =
     (if fileExists fs (manifestPath dirPath) then
        (if isValidJSON (parse_manifest L) fs (manifestPath dirPath)
         then [\<lparr>fe_file = ''gemini-extension.json'', fe_type = ''manifest'',
                 fe_valid = Some True, fe_issue = None\<rparr>]
         else [\<lparr>fe_file = ''gemini-extension.json'', fe_type = ''manifest'',
                 fe_valid = Some False, fe_issue = Some ''Invalid JSON''\<rparr>])
      else [])
     @ (if fileExists fs (dirPath @ [''GEMINI.md''])
        then [\<lparr>fe_file = ''GEMINI.md'', fe_type = ''context'', fe_valid = Some True,
                fe_issue = None\<rparr>]
        else [])"

definition detectSharedFiles :: "filesystem \<Rightarrow> path \<Rightarrow> file_entry list" where
  \<comment> \<open>\<^verbatim>\<open>_detectSharedFiles\<close>\<close>
  "detectSharedFiles fs dirPath =
     (if fileExists fs (dirPath @ [''package.json''])
      then [\<lparr>fe_file = ''package.json'', fe_type = ''dependency'', fe_valid = None,
              fe_issue = None\<rparr>]
      else [])
     @ (if checkDirectoryExists fs (dirPath @ [''shared''])
        then [\<lparr>fe_file = ''shared/'', fe_type = ''directory'', fe_valid = None,
                fe_issue = None\<rparr>]
        else [])
     @ (if checkDirectoryExists fs (dirPath @ [''mcp-server''])
        then [\<lparr>fe_file = ''mcp-server/'', fe_type = ''directory'', fe_valid = None,
                fe_issue = None\<rparr>]
        else [])"

definition parsed_value :: "'a parsed \<Rightarrow> 'a option option" where
  \<comment> \<open>\<^verbatim>\<open>try { json = JSON.parse(content); field = json } catch {}\<close>: the field stays absent
      on a syntax error\<close>
  "parsed_value r =
     (case r of ParseError m \<Rightarrow> None | ParsedNull \<Rightarrow> Some None | Parsed v \<Rightarrow> Some (Some v))"

definition extractMetadata ::
  "libs \<Rightarrow> filesystem \<Rightarrow> path \<Rightarrow> platform \<Rightarrow> io_error + detection_metadata" where
  \<comment> \<open>\<^verbatim>\<open>_extractMetadata\<close>: the two calls of \<^verbatim>\<open>fs.readFile\<close> stand outside the \<^verbatim>\<open>try\<close>
      blocks, which only hold \<^verbatim>\<open>JSON.parse\<close>\<close>
  "extractMetadata L fs dirPath pf =
     (let metadata = \<lparr>md_claude = None, md_claudeMarketplace = None, md_gemini = None\<rparr>;
          step1 =
            (if pf = CLAUDE \<or> pf = UNIVERSAL then
               (let metadata =
                      (if fileExists fs (skillPath dirPath) then
                         (case extractYAMLFrontmatter fs (skillPath dirPath) of
                            None \<Rightarrow> metadata
                          | Some fm \<Rightarrow> metadata\<lparr>md_claude := Some fm\<rparr>)
                       else metadata)
                in if fileExists fs (marketplacePath dirPath) then
                     (case readFile fs (marketplacePath dirPath) of
                        Inl e \<Rightarrow> Inl e
                      | Inr text \<Rightarrow>
                          Inr (metadata\<lparr>md_claudeMarketplace :=
                                 parsed_value (parse_marketplace L text)\<rparr>))
                   else Inr metadata)
             else Inr metadata)
      in case step1 of
           Inl e \<Rightarrow> Inl e
         | Inr metadata \<Rightarrow>
             if pf = GEMINI \<or> pf = UNIVERSAL then
               (if fileExists fs (manifestPath dirPath) then
                  (case readFile fs (manifestPath dirPath) of
                     Inl e \<Rightarrow> Inl e
                   | Inr text \<Rightarrow>
                       Inr (metadata\<lparr>md_gemini := parsed_value (parse_manifest L text)\<rparr>))
                else Inr metadata)
             else Inr metadata)"

definition classify :: "file_entry list \<Rightarrow> file_entry list \<Rightarrow> platform \<times> string" where
  \<comment> \<open>"Determine platform type"\<close>
  "classify claudeFiles geminiFiles =
     (let hasClaude = length claudeFiles > 0;
          hasGemini = length geminiFiles > 0
      in if hasClaude \<and> hasGemini then (UNIVERSAL, ''high'')
         else if hasClaude then (CLAUDE, ''high'')
         else if hasGemini then (GEMINI, ''high'')
         else (UNKNOWN, ''low''))"

definition detect :: "libs \<Rightarrow> filesystem \<Rightarrow> path \<Rightarrow> string + detection" where
  \<comment> \<open>\<^verbatim>\<open>PlatformDetector.detect\<close>; \<^const>\<open>Inl\<close> holds the message of the error thrown\<close>
  "detect L fs dirPath =
     (if \<not> checkDirectoryExists fs dirPath
      then Inl (''Detection failed: '' @ ''Directory not found: '' @ path_string dirPath)
      else
        let claudeFiles = detectClaudeFiles L fs dirPath;
            geminiFiles = detectGeminiFiles L fs dirPath;
            sharedFiles = detectSharedFiles fs dirPath;
            (pf, conf) = classify claudeFiles geminiFiles
        in case extractMetadata L fs dirPath pf of
             Inl e \<Rightarrow> Inl (''Detection failed: '' @ io_message e)
           | Inr metadata \<Rightarrow>
               Inr \<lparr>det_platform = pf, det_claude = claudeFiles, det_gemini = geminiFiles,
                     det_shared = sharedFiles, det_confidence = conf,
                     det_metadata = metadata\<rparr>)"

section \<open>Converter from schema A to schema B\<close>

text \<open>
  What \<^verbatim>\<open>_extractClaudeMetadata\<close> stores in \<^verbatim>\<open>this.metadata.source\<close>: the frontmatter
  as the YAML library returns it (\<^const>\<open>None\<close> is \<^verbatim>\<open>null\<close>), the body of the entry
  document, and the manifest or \<^verbatim>\<open>null\<close>.
\<close>

record claude_source =
  src_frontmatter :: "frontmatter option"
  src_content :: string
  src_marketplace :: "marketplace option"

definition frontmatterBlockPattern :: "ritem list" where
  \<comment> \<open>\<^verbatim>\<open>/^---\n[\s\S]+?\n---\n/\<close>\<close>
  "frontmatterBlockPattern =
     [Bos, Lit ''---\<newline>'', One CAny, StarLazy CAny, Lit ''\<newline>---\<newline>'']"

definition typeError :: "string \<Rightarrow> string \<Rightarrow> string" where
  \<comment> \<open>the message of the \<^verbatim>\<open>TypeError\<close> for reading a field of \<^verbatim>\<open>null\<close> or
      \<^verbatim>\<open>undefined\<close>\<close>
  "typeError what field =
     ''Cannot read properties of '' @ what @ '' (reading '' @ [CHR 0x27] @ field @ [CHR 0x27] @ '')''"


definition relativePathPattern :: "ritem list" where
  \<comment> \<open>\<^verbatim>\<open>/^[a-z]/i\<close>\<close>
  "relativePathPattern =
     [Bos, One (CSet ''abcdefghijklmnopqrstuvwxyzABCDEFGHIJKLMNOPQRSTUVWXYZ'')]"

definition transformArg :: "string \<Rightarrow> string" where
  "transformArg arg =
     (if regex_test relativePathPattern arg \<and> \<not> prefix ''${'' arg
      then ''${extensionPath}/'' @ arg else arg)"

definition transformEnvValue :: "env_value \<Rightarrow> env_value" where
  \<comment> \<open>a value that holds a placeholder becomes that placeholder alone\<close>
  "transformEnvValue v =
     (case placeholderName v of
        Some varName \<Rightarrow> EnvString (''${'' @ varName @ ''}'')
      | None \<Rightarrow> v)"

definition transformMCPServers :: "mcp_servers \<Rightarrow> mcp_servers" where
  \<comment> \<open>\<^verbatim>\<open>ClaudeToGeminiConverter._transformMCPServers\<close>\<close>
  "transformMCPServers mcpServers =
     map (\<lambda>(serverName, config).
            (serverName,
             config\<lparr>args := map_option (map transformArg) (args config),
                    env := map_option (map (\<lambda>(key, v). (key, transformEnvValue v))) (env config)\<rparr>))
         mcpServers"

definition firstPlugin :: "marketplace option \<Rightarrow> plugin option" where
  \<comment> \<open>\<^verbatim>\<open>marketplace?.plugins?.[0]\<close>\<close>
  "firstPlugin marketplace =
     (case marketplace of
        None \<Rightarrow> None
      | Some m \<Rightarrow>
          (case mp_plugins m of
             Some (PluginsArray (p # ps)) \<Rightarrow> Some p
           | _ \<Rightarrow> None))"

definition tools_truthy :: "tools_value \<Rightarrow> bool" where
  \<comment> \<open>an array is truthy, a string unless it is empty; \<^const>\<open>ToolsOther\<close> stands for the
      truthy values of other types\<close>
  "tools_truthy v = (case v of ToolsString s \<Rightarrow> s \<noteq> [] | _ \<Rightarrow> True)"

definition buildGeminiManifest ::
  "claude_source \<Rightarrow> string list option \<Rightarrow> string + generated_manifest \<times> string list option" where
  \<comment> \<open>the object built by \<^verbatim>\<open>_generateGeminiManifest\<close>, with \<^verbatim>\<open>this.metadata.warnings\<close>
      before and after\<close>
  "buildGeminiManifest src warnings =
     (case src_frontmatter src of
        None \<Rightarrow> Inl (typeError ''null'' ''name'')
      | Some fm \<Rightarrow>
          (let marketplace = src_marketplace src;
               servers = (case firstPlugin marketplace of
                            None \<Rightarrow> None
                          | Some p \<Rightarrow> map_option transformMCPServers (plugin_mcpServers p));
               (excludeTools, warnings') =
                 (case fm_allowed_tools fm of
                    None \<Rightarrow> (None, warnings)
                  | Some v \<Rightarrow>
                      if tools_truthy v
                      then (let (ex, w) = convertAllowedToolsToExclude v warnings in (Some ex, w))
                      else (None, warnings));
               settings = (case servers of
                             None \<Rightarrow> None
                           | Some s \<Rightarrow>
                               (let inferred = inferSettingsFromMCPConfig s
                                in if length inferred > 0 then Some inferred else None))
           in Inr (\<lparr>out_name = fm_name fm,
                     out_version =
                       (case marketplace of
                          None \<Rightarrow> ''1.0.0''
                        | Some m \<Rightarrow>
                            (case mp_metadata m of
                               None \<Rightarrow> ''1.0.0''
                             | Some md \<Rightarrow> or_else (mm_version md) ''1.0.0'')),
                     out_description =
                       or_else (fm_description fm)
                         (case firstPlugin marketplace of
                            None \<Rightarrow> []
                          | Some p \<Rightarrow> or_else (plugin_description p) []),
                     out_contextFileName = ''GEMINI.md'',
                     out_mcpServers = servers,
                     out_excludeTools = excludeTools,
                     out_settings = settings\<rparr>, warnings')))"

definition quickStart :: string where
  "quickStart =
     ''## Quick Start\<newline>\<newline>After installation, you can use this extension by asking questions or giving commands naturally.\<newline>\<newline>''"

definition geminiFooter :: string where
  "geminiFooter =
     ''*This extension was converted from a Claude Code skill using [skill-porter](https://github.com/jduncan-rva/skill-porter)*\<newline>''"

definition geminiContext :: "frontmatter \<Rightarrow> string \<Rightarrow> string" where
  \<comment> \<open>the text \<^verbatim>\<open>_generateGeminiContext\<close> writes to \<^verbatim>\<open>GEMINI.md\<close>\<close>
  "geminiContext fm content =
     ''# '' @ template (fm_name fm) @ '' - Gemini CLI Extension\<newline>\<newline>''
     @ template (fm_description fm) @ ''\<newline>\<newline>''
     @ quickStart
     @ content
     @ ''\<newline>\<newline>---\<newline>\<newline>''
     @ geminiFooter"





record gemini_source =
  gsrc_manifest :: gemini_manifest
  gsrc_content :: string

text \<open>\<^verbatim>\<open>this.metadata\<close> of a converter: its source, and the warnings when there are any.\<close>

datatype conversion_metadata =
    ClaudeMetadata claude_source "string list option"
  | GeminiMetadata gemini_source

record validation_result =
  valid :: bool
  val_errors :: "string list"
  val_warnings :: "string list"

record convert_result =
  success :: bool
  message :: "string option"
  res_platform :: "string option"
  files :: "path list option"
  res_warnings :: "string list option"
  res_errors :: "string list option"
  res_metadata :: "conversion_metadata option"
  res_validation :: "validation_result option"

definition failed :: "path list \<Rightarrow> string \<Rightarrow> convert_result" where
  \<comment> \<open>the result of a converter after its \<^verbatim>\<open>catch\<close>: the files pushed so far stay\<close>
  "failed fl msg =
     \<lparr>success = False, message = None, res_platform = None, files = Some fl,
      res_warnings = Some [], res_errors = Some [msg], res_metadata = None,
      res_validation = None\<rparr>"


section \<open>Converter from schema B to schema A\<close>


definition geminiTitlePattern :: "ritem list" where
  \<comment> \<open>\<^verbatim>\<open>/^#\s+.+?\s+-\s+Gemini CLI Extension\n\n/m\<close>\<close>
  "geminiTitlePattern =
     [Bol, Lit ''#'', One CSpace, StarGreedy CSpace, One CDot, StarLazy CDot,
      One CSpace, StarGreedy CSpace, Lit ''-'', One CSpace, StarGreedy CSpace,
      Lit ''Gemini CLI Extension\<newline>\<newline>'']"

definition quickStartPattern :: "ritem list" where
  \<comment> \<open>\<^verbatim>\<open>/##\s+Quick Start[\s\S]+?After installation.+?\n\n/m\<close>\<close>
  "quickStartPattern =
     [Lit ''##'', One CSpace, StarGreedy CSpace, Lit ''Quick Start'', One CAny, StarLazy CAny,
      Lit ''After installation'', One CDot, StarLazy CDot, Lit ''\<newline>\<newline>'']"

definition geminiFooterPattern :: "ritem list" where
  \<comment> \<open>\<^verbatim>\<open>/\n---\n\n\*This extension was converted.+?\*\n$/s\<close>\<close>
  "geminiFooterPattern =
     [Lit ''\<newline>---\<newline>\<newline>*This extension was converted'', One CAny, StarLazy CAny,
      Lit ''*\<newline>'', Eos]"

definition cleanContent :: "string \<Rightarrow> string" where
  \<comment> \<open>"Remove Gemini-specific headers", "Remove conversion footer if present"\<close>
  "cleanContent content =
     remove_first geminiFooterPattern
       (remove_first quickStartPattern (remove_first geminiTitlePattern content))"

definition settingLine :: "manifest_setting \<Rightarrow> string" where
  "settingLine setting =
     ''- `'' @ template (ms_name setting) @ ''`: '' @ template (ms_description setting)
     @ (if truthy (ms_default setting)
        then '' (default: '' @ template (ms_default setting) @ '')'' else [])
     @ (if ms_required setting = Some True then '' **(required)**'' else [])
     @ ''\<newline>''"

definition settingsIntro :: string where
  "settingsIntro =
     ''## Configuration\<newline>\<newline>This skill requires the following environment variables:\<newline>\<newline>''"

definition settingsOutro :: string where
  "settingsOutro =
     ''\<newline>Set these in your environment or Claude Code configuration.\<newline>\<newline>''"

definition noSetting :: manifest_setting where
  \<comment> \<open>a character of a string, read as a setting: every field is missing\<close>
  "noSetting = \<lparr>ms_name = None, ms_description = None, ms_default = None, ms_required = None\<rparr>"

definition configurationSection :: "settings_value option \<Rightarrow> string + string" where
  \<comment> \<open>the section is added when \<^verbatim>\<open>manifest.settings && manifest.settings.length > 0\<close>:
      for an array that is not empty, for a string that is not empty (the loop then
      runs over its characters), and for an object with such a length, which the
      loop cannot run over\<close>
  "configurationSection settings =
     (case settings of
        Some (SettingsArray (x # xs)) \<Rightarrow>
          Inr (settingsIntro @ concat (map settingLine (x # xs)) @ settingsOutro)
      | Some (SettingsString (c # cs)) \<Rightarrow>
          Inr (settingsIntro @ concat (map (\<lambda>ch. settingLine noSetting) (c # cs))
               @ settingsOutro)
      | Some SettingsLengthy \<Rightarrow> Inl ''manifest.settings is not iterable''
      | _ \<Rightarrow> Inr [])"

definition claudeFooter :: string where
  "claudeFooter =
     ''*This skill was converted from a Gemini CLI extension using [skill-porter](https://github.com/jduncan-rva/skill-porter)*\<newline>''"



definition skillBody :: "gemini_manifest \<Rightarrow> string \<Rightarrow> string + string" where
  \<comment> \<open>the text of \<^verbatim>\<open>SKILL.md\<close> after the frontmatter block; the fallback section
      calls \<^verbatim>\<open>toLowerCase\<close> on the description and throws when there is none\<close>
  "skillBody manifest content =
     (case configurationSection (gm_settings manifest) of
        Inl msg \<Rightarrow> Inl msg
      | Inr configuration \<Rightarrow>
          (let heading = ''# '' @ template (gm_name manifest)
                         @ '' - Claude Code Skill\<newline>\<newline>''
                         @ template (gm_description manifest) @ ''\<newline>\<newline>''
                         @ configuration;
               cleaned = trim (cleanContent content);
               ending = ''---\<newline>\<newline>'' @ claudeFooter
           in if cleaned \<noteq> [] then Inr (heading @ cleaned @ ''\<newline>\<newline>'' @ ending)
              else case gm_description manifest of
                     None \<Rightarrow> Inl (typeError ''undefined'' ''toLowerCase'')
                   | Some d \<Rightarrow>
                       Inr (heading @ ''## Usage\<newline>\<newline>Use this skill when you need ''
                            @ toLowerCase d @ ''.\<newline>\<newline>'' @ ending)))"










section \<open>Validator\<close>

text \<open>
  The state of a validation run is the pair of \<^verbatim>\<open>this.errors\<close> and \<^verbatim>\<open>this.warnings\<close>.
  A step returns the message of the error it throws, if it throws, and the state.
\<close>

type_synonym vstate = "string list \<times> string list"

definition push_error :: "string \<Rightarrow> vstate \<Rightarrow> vstate" where
  "push_error msg st = (fst st @ [msg], snd st)"

definition push_warning :: "string \<Rightarrow> vstate \<Rightarrow> vstate" where
  "push_warning msg st = (fst st, snd st @ [msg])"

definition push_error_if :: "bool \<Rightarrow> string \<Rightarrow> vstate \<Rightarrow> vstate" where
  "push_error_if b msg st = (if b then push_error msg st else st)"

definition push_warning_if :: "bool \<Rightarrow> string \<Rightarrow> vstate \<Rightarrow> vstate" where
  "push_warning_if b msg st = (if b then push_warning msg st else st)"

fun show_nat :: "nat \<Rightarrow> string" where
  \<comment> \<open>a number inside a template literal\<close>
  "show_nat n =
     (if n < 10 then [char_of (48 + n)]
      else show_nat (n div 10) @ [char_of (48 + n mod 10)])"

declare show_nat.simps [simp del]

definition yaml_truthy :: "yaml_value option \<Rightarrow> bool" where
  \<comment> \<open>a string is truthy unless it is empty, an array always\<close>
  "yaml_truthy v = (case v of None \<Rightarrow> False | Some (YamlString s) \<Rightarrow> s \<noteq> [] | Some (YamlArray xs) \<Rightarrow> True)"

definition yaml_length :: "yaml_value \<Rightarrow> nat" where
  \<comment> \<open>the field \<^verbatim>\<open>length\<close> of a string or of an array\<close>
  "yaml_length v = (case v of YamlString s \<Rightarrow> length s | YamlArray xs \<Rightarrow> length xs)"

definition yaml_to_string :: "yaml_value \<Rightarrow> string" where
  \<comment> \<open>the conversion to a string that \<^verbatim>\<open>RegExp.prototype.test\<close> applies to its argument\<close>
  "yaml_to_string v = (case v of YamlString s \<Rightarrow> s | YamlArray xs \<Rightarrow> join_with '','' xs)"

definition namePattern :: "ritem list" where
  \<comment> \<open>\<^verbatim>\<open>/^[a-z0-9-]+$/\<close>\<close>
  "namePattern =
     [Bos, One (CSet ''abcdefghijklmnopqrstuvwxyz0123456789-''),
      StarGreedy (CSet ''abcdefghijklmnopqrstuvwxyz0123456789-''), Eos]"

definition nameFormatError :: string where
  "nameFormatError = ''Skill name must be lowercase letters, numbers, and hyphens only''"

definition nameLengthError :: string where
  "nameLengthError = ''Skill name must be 64 characters or less''"

definition descriptionLengthError :: string where
  "descriptionLengthError = ''Description must be 1024 characters or less''"

definition descriptionShortWarning :: string where
  "descriptionShortWarning =
     ''Description should be descriptive (at least 50 characters recommended)''"

definition checkName :: "yaml_object \<Rightarrow> vstate \<Rightarrow> vstate" where
  \<comment> \<open>"Check required frontmatter fields": the name\<close>
  "checkName frontmatter st =
     (if \<not> yaml_truthy (map_of frontmatter ''name'')
      then push_error ''SKILL.md frontmatter missing required field: name'' st
      else case map_of frontmatter ''name'' of
             None \<Rightarrow> st
           | Some v \<Rightarrow>
               push_error_if (yaml_length v > 64) nameLengthError
                 (push_error_if (\<not> regex_test namePattern (yaml_to_string v))
                    nameFormatError st))"

definition descriptionMissingError :: string where
  "descriptionMissingError = ''SKILL.md frontmatter missing required field: description''"

definition checkDescription :: "yaml_object \<Rightarrow> vstate \<Rightarrow> vstate" where
  \<comment> \<open>"Check required frontmatter fields": the description\<close>
  "checkDescription frontmatter st =
     (if \<not> yaml_truthy (map_of frontmatter ''description'')
      then push_error descriptionMissingError st
      else case map_of frontmatter ''description'' of
             None \<Rightarrow> st
           | Some v \<Rightarrow>
               push_warning_if (yaml_length v < 50) descriptionShortWarning
                 (push_error_if (yaml_length v > 1024) descriptionLengthError st))"

fun checkPlugins :: "nat \<Rightarrow> plugin list \<Rightarrow> vstate \<Rightarrow> vstate" where
  \<comment> \<open>the \<^verbatim>\<open>forEach\<close> over the plugins, with the index\<close>
  "checkPlugins index [] st = st"
| "checkPlugins index (p # ps) st =
     checkPlugins (index + 1) ps
       (push_error_if (\<not> truthy (plugin_description p))
          (''Plugin at index '' @ show_nat index @ '' missing required field: description'')
          (push_error_if (\<not> truthy (plugin_name p))
             (''Plugin at index '' @ show_nat index @ '' missing required field: name'') st))"

definition validateMarketplaceJSON ::
  "libs \<Rightarrow> filesystem \<Rightarrow> path \<Rightarrow> vstate \<Rightarrow> string option \<times> vstate" where
  \<comment> \<open>\<^verbatim>\<open>_validateMarketplaceJSON\<close>\<close>
  "validateMarketplaceJSON L fs filePath st =
     (case readFile fs filePath of
        Inl e \<Rightarrow> (Some (io_message e), st)
      | Inr content \<Rightarrow>
          (case parse_marketplace L content of
             ParseError m \<Rightarrow> (None, push_error (''Invalid JSON in marketplace.json: '' @ m) st)
           | ParsedNull \<Rightarrow> (Some (typeError ''null'' ''name''), st)
           | Parsed marketplace \<Rightarrow>
               (let st1 = push_error_if (\<not> truthy (mp_name marketplace))
                            ''marketplace.json missing required field: name'' st;
                    st2 = (case mp_metadata marketplace of
                             None \<Rightarrow>
                               push_error ''marketplace.json missing required field: metadata'' st1
                           | Some md \<Rightarrow>
                               push_warning_if (\<not> truthy (mm_version md))
                                 ''marketplace.json metadata should include version''
                                 (push_warning_if (\<not> truthy (mm_description md))
                                    ''marketplace.json metadata should include description''
                                    st1))
                in (None,
                    case mp_plugins marketplace of
                      Some (PluginsArray ps) \<Rightarrow> checkPlugins 0 ps st2
                    | _ \<Rightarrow>
                        push_error ''marketplace.json missing required field: plugins (array)''
                          st2))))"

definition validateClaude ::
  "libs \<Rightarrow> filesystem \<Rightarrow> path \<Rightarrow> vstate \<Rightarrow> string option \<times> vstate" where
  \<comment> \<open>\<^verbatim>\<open>_validateClaude\<close>\<close>
  "validateClaude L fs dirPath st =
     (if \<not> fileExists fs (skillPath dirPath)
      then (None, push_error ''Missing required file: SKILL.md'' st)
      else case readFile fs (skillPath dirPath) of
             Inl e \<Rightarrow> (Some (io_message e), st)
           | Inr content \<Rightarrow>
               (case frontmatterMatch content of
                  None \<Rightarrow> (None, push_error ''SKILL.md must have YAML frontmatter'' st)
                | Some yaml \<Rightarrow>
                    (let frontmatter = parseYAML yaml;
                         st1 = checkDescription frontmatter (checkName frontmatter st);
                         (thrown, st2) =
                           (if \<not> fileExists fs (marketplacePath dirPath)
                            then (None, push_warning
                                    ''Missing .claude-plugin/marketplace.json (recommended for MCP server integration)''
                                    st1)
                            else validateMarketplaceJSON L fs (marketplacePath dirPath) st1)
                     in case thrown of
                          Some msg \<Rightarrow> (Some msg, st2)
                        | None \<Rightarrow>
                            (None,
                             push_warning_if (CHR 0x5C \<in> set content)
                               (''Use forward slashes (/) for file paths, not backslashes (''
                                @ [CHR 0x5C] @ '')'')
                               st2))))"

fun checkServers :: "libs \<Rightarrow> mcp_servers \<Rightarrow> vstate \<Rightarrow> vstate" where
  \<comment> \<open>"Validate MCP servers configuration"\<close>
  "checkServers L [] st = st"
| "checkServers L ((serverName, config) # cs) st =
     checkServers L cs
       (push_warning_if
          (case args config of
             None \<Rightarrow> False
           | Some a \<Rightarrow> includes_str (stringify_args L a) ''mcp-server''
                        \<and> \<not> includes_str (stringify_args L a) ''${extensionPath}'')
          (''MCP server \"'' @ serverName @ ''\" should use ${extensionPath} variable for paths'')
          (push_error_if (\<not> truthy (command config))
             (''MCP server \"'' @ serverName @ ''\" missing required field: command'') st))"

fun checkSettings :: "nat \<Rightarrow> manifest_setting list \<Rightarrow> vstate \<Rightarrow> vstate" where
  \<comment> \<open>the \<^verbatim>\<open>forEach\<close> over the settings, with the index\<close>
  "checkSettings index [] st = st"
| "checkSettings index (x # xs) st =
     checkSettings (index + 1) xs
       (push_warning_if (\<not> truthy (ms_description x))
          (''Setting \"'' @ template (ms_name x) @ ''\" should have a description'')
          (push_error_if (\<not> truthy (ms_name x))
             (''Setting at index '' @ show_nat index @ '' missing required field: name'') st))"

definition checkSettingsValue :: "settings_value option \<Rightarrow> vstate \<Rightarrow> vstate" where
  \<comment> \<open>"Validate settings if present": a value that is truthy and no array is an
      error\<close>
  "checkSettingsValue settings st =
     (case settings of
        None \<Rightarrow> st
      | Some (SettingsArray xs) \<Rightarrow> checkSettings 0 xs st
      | Some (SettingsString t) \<Rightarrow> push_error_if (t \<noteq> []) ''settings must be an array'' st
      | Some other \<Rightarrow> push_error ''settings must be an array'' st)"

definition checkExcludeValue :: "exclude_value option \<Rightarrow> vstate \<Rightarrow> vstate" where
  \<comment> \<open>"Validate excludeTools if present"\<close>
  "checkExcludeValue excludeTools st =
     (case excludeTools of
        None \<Rightarrow> st
      | Some (ExcludeArray xs) \<Rightarrow> st
      | Some (ExcludeString t) \<Rightarrow>
          push_error_if (t \<noteq> []) ''excludeTools must be an array'' st
      | Some other \<Rightarrow> push_error ''excludeTools must be an array'' st)"

definition validateGemini ::
  "libs \<Rightarrow> filesystem \<Rightarrow> path \<Rightarrow> vstate \<Rightarrow> string option \<times> vstate" where
  \<comment> \<open>\<^verbatim>\<open>_validateGemini\<close>\<close>
  "validateGemini L fs dirPath st =
     (if \<not> fileExists fs (manifestPath dirPath)
      then (None, push_error ''Missing required file: gemini-extension.json'' st)
      else case readFile fs (manifestPath dirPath) of
             Inl e \<Rightarrow> (Some (io_message e), st)
           | Inr content \<Rightarrow>
               (case parse_manifest L content of
                  ParseError m \<Rightarrow>
                    (None, push_error (''Invalid JSON in gemini-extension.json: '' @ m) st)
                | ParsedNull \<Rightarrow> (Some (typeError ''null'' ''name''), st)
                | Parsed manifest \<Rightarrow>
                    (let st1 =
                           (if \<not> truthy (gm_name manifest)
                            then push_error ''gemini-extension.json missing required field: name'' st
                            else push_warning_if (template (gm_name manifest) \<noteq> basename dirPath)
                                   (''Extension name \"'' @ template (gm_name manifest)
                                    @ ''\" should match directory name \"'' @ basename dirPath
                                    @ ''\"'') st);
                         st2 = push_error_if (\<not> truthy (gm_version manifest))
                                 ''gemini-extension.json missing required field: version'' st1;
                         st3 = (case gm_mcpServers manifest of
                                  None \<Rightarrow> st2
                                | Some servers \<Rightarrow> checkServers L servers st2);
                         st4 = checkSettingsValue (gm_settings manifest) st3;
                         contextFileName = or_else (gm_contextFileName manifest) ''GEMINI.md'';
                         st5 = push_warning_if
                                 (\<not> fileExists fs (path_join dirPath contextFileName))
                                 (''Missing context file: '' @ contextFileName
                                  @ '' (recommended for providing context to Gemini)'') st4
                     in (None, checkExcludeValue (gm_excludeTools manifest) st5))))"

definition validation_failed :: "string \<Rightarrow> vstate \<Rightarrow> validation_result" where
  \<comment> \<open>the \<^verbatim>\<open>catch\<close> of \<^verbatim>\<open>validate\<close>\<close>
  "validation_failed msg st =
     \<lparr>valid = False, val_errors = fst st @ [''Validation failed: '' @ msg],
      val_warnings = snd st\<rparr>"

definition validate :: "libs \<Rightarrow> filesystem \<Rightarrow> path \<Rightarrow> string \<Rightarrow> validation_result" where
  \<comment> \<open>\<^verbatim>\<open>Validator.validate\<close>\<close>
  "validate L fs dirPath pf =
     (case (if pf = platform_name CLAUDE \<or> pf = platform_name UNIVERSAL
            then validateClaude L fs dirPath ([], []) else (None, ([], []))) of
        (Some msg, st) \<Rightarrow> validation_failed msg st
      | (None, st) \<Rightarrow>
          (case (if pf = platform_name GEMINI \<or> pf = platform_name UNIVERSAL
                 then validateGemini L fs dirPath st else (None, st)) of
             (Some msg, st') \<Rightarrow> validation_failed msg st'
           | (None, st') \<Rightarrow>
               \<lparr>valid = (length (fst st') = 0), val_errors = fst st', val_warnings = snd st'\<rparr>))"

section \<open>The main module\<close>




text \<open>How often a text occurs in another, counted by the positions where it starts.\<close>

fun occurrences :: "string \<Rightarrow> string \<Rightarrow> nat" where
  "occurrences sub [] = (if sub = [] then 1 else 0)"
| "occurrences sub (x # xs) = (if prefix sub (x # xs) then 1 else 0) + occurrences sub xs"

text \<open>
  A runtime with fixed answers, to run the program on concrete directories whose
  result does not depend on the library functions.
\<close>

definition fixed_libs :: libs where
  "fixed_libs =
     \<lparr>parse_manifest = (\<lambda>t. ParseError ''Unexpected token''),
      parse_marketplace = (\<lambda>t. ParseError ''Unexpected token''),
      stringify_manifest = (\<lambda>m. ''{}''),
      stringify_marketplace = (\<lambda>m. ''{}''),
      stringify_args = (\<lambda>a. ''[]''),
      yaml_load = (\<lambda>t. ParsedNull),
      yaml_dump = (\<lambda>f. Inr [])\<rparr>"

section \<open>Notions used in the proofs\<close>

text \<open>Every step only appends to the two lists.\<close>

definition extends :: "vstate \<Rightarrow> vstate \<Rightarrow> bool" where
  "extends st st' \<longleftrightarrow> prefix (fst st) (fst st') \<and> prefix (snd st) (snd st')"

text \<open>No string value of a parsed metadata block is empty.\<close>

definition strings_nonempty :: "yaml_object \<Rightarrow> bool" where
  "strings_nonempty obj \<longleftrightarrow> (\<forall>k v. (k, YamlString v) \<in> set obj \<longrightarrow> v \<noteq> [])"

text \<open>
  An error message other than the two of the description rule, and a state whose
  errors are all of this kind.
\<close>

definition other_message :: "string \<Rightarrow> bool" where
  "other_message m \<longleftrightarrow> m \<noteq> descriptionLengthError \<and> m \<noteq> descriptionMissingError"

definition clean :: "vstate \<Rightarrow> bool" where
  "clean st \<longleftrightarrow> (\<forall>m \<in> set (fst st). other_message m)"

section \<open>Properties of the tool-permission mapper\<close>

lemma distinct_allTools: "distinct allTools"
  by (simp add: allTools_def)

lemma length_allTools: "length allTools = 16"
  by (simp add: allTools_def)

lemma filter_complement_twice:
  "filter (\<lambda>t. t \<notin> set (filter (\<lambda>u. u \<notin> A) xs)) xs = filter (\<lambda>t. t \<in> A) xs"
  by (rule filter_cong) auto

lemma exclude_then_allow:
  "convertExcludeToAllowedTools (filter (\<lambda>t. t \<notin> set S) allTools) =
     filter (\<lambda>t. t \<in> set S) allTools"
  unfolding convertExcludeToAllowedTools_def by (rule filter_complement_twice)

lemma filter_member_filter: "filter (\<lambda>t. t \<in> set (filter P xs)) xs = filter P xs"
  by (rule filter_cong) auto

lemma allow_of_empty: "convertExcludeToAllowedTools [] = allTools"
  by (simp add: convertExcludeToAllowedTools_def)

lemma convertAllowedToolsToExclude_eq:
  "convertAllowedToolsToExclude v w =
     (if length (normalizeAllowed v)
           < length (filter (\<lambda>t. t \<notin> set (normalizeAllowed v)) allTools)
      then (filter (\<lambda>t. t \<notin> set (normalizeAllowed v)) allTools, w)
      else ([], pushWarning w toolWarning))"
  by (simp add: convertAllowedToolsToExclude_def Let_def)

lemma normalizeAllowed_array [simp]: "normalizeAllowed (ToolsArray S) = S"
  by (simp add: normalizeAllowed_def)

lemma pushWarning_changes: "pushWarning w msg \<noteq> w"
  by (cases w) (simp_all add: pushWarning_def)

lemma subseq_filter_allTools: "subseq (filter P allTools) allTools"
  by (rule subseq_filter_left)

text \<open>
  Claim C1, as stated: for every subset \<open>S\<close> of the sixteen tokens, turning the
  whitelist \<open>S\<close> into a blacklist and back gives \<open>S\<close> again whenever the blacklist
  has at most as many elements as \<open>S\<close>.  It fails for the whitelist of the first
  eight tokens: the blacklist returned is empty (so it is not longer than \<open>S\<close>), and
  the whitelist computed from it is the whole universe.
\<close>

theorem permission_roundtrip_counterexample:
  "set [''Read'', ''Write'', ''Edit'', ''Glob'', ''Grep'', ''Bash'', ''Task'', ''WebFetch'']
      \<subseteq> set allTools
   \<and> length (fst (convertAllowedToolsToExclude
         (ToolsArray [''Read'', ''Write'', ''Edit'', ''Glob'', ''Grep'', ''Bash'', ''Task'',
                      ''WebFetch'']) None))
       \<le> length [''Read'', ''Write'', ''Edit'', ''Glob'', ''Grep'', ''Bash'', ''Task'',
                  ''WebFetch'']
   \<and> convertExcludeToAllowedTools (fst (convertAllowedToolsToExclude
         (ToolsArray [''Read'', ''Write'', ''Edit'', ''Glob'', ''Grep'', ''Bash'', ''Task'',
                      ''WebFetch'']) None))
       \<noteq> [''Read'', ''Write'', ''Edit'', ''Glob'', ''Grep'', ''Bash'', ''Task'', ''WebFetch'']"
  by (simp add: convertAllowedToolsToExclude_eq allTools_def convertExcludeToAllowedTools_def)

text \<open>
  Claim C1, amended: for every whitelist \<open>S\<close> of universe tokens, when the complement
  of \<open>S\<close> in the universe has more elements than \<open>S\<close> (the non-degenerate branch) the
  blacklist is that complement, no warning is added, and the whitelist computed
  from it consists of the tokens of \<open>S\<close>, in the universe's order (it is \<open>S\<close> itself
  when \<open>S\<close> lists a subset of the universe in that order); otherwise the blacklist is
  empty, the advisory warning is pushed, and the whitelist computed from it is the
  whole universe.
\<close>

theorem permission_roundtrip:
  assumes "set S \<subseteq> set allTools"
  shows "(length S < length (filter (\<lambda>t. t \<notin> set S) allTools) \<longrightarrow>
            convertAllowedToolsToExclude (ToolsArray S) w
              = (filter (\<lambda>t. t \<notin> set S) allTools, w)
          \<and> convertExcludeToAllowedTools (fst (convertAllowedToolsToExclude (ToolsArray S) w))
              = filter (\<lambda>t. t \<in> set S) allTools
          \<and> set (convertExcludeToAllowedTools
                    (fst (convertAllowedToolsToExclude (ToolsArray S) w))) = set S
          \<and> (\<forall>P. S = filter P allTools \<longrightarrow>
                convertExcludeToAllowedTools
                  (fst (convertAllowedToolsToExclude (ToolsArray S) w)) = S))
       \<and> (length (filter (\<lambda>t. t \<notin> set S) allTools) \<le> length S \<longrightarrow>
            convertAllowedToolsToExclude (ToolsArray S) w = ([], pushWarning w toolWarning)
          \<and> convertExcludeToAllowedTools (fst (convertAllowedToolsToExclude (ToolsArray S) w))
              = allTools)"
proof (cases "length S < length (filter (\<lambda>t. t \<notin> set S) allTools)")
  case True
  let ?again = "convertExcludeToAllowedTools (fst (convertAllowedToolsToExclude (ToolsArray S) w))"
  have forth: "convertAllowedToolsToExclude (ToolsArray S) w
                 = (filter (\<lambda>t. t \<notin> set S) allTools, w)"
    using True by (simp add: convertAllowedToolsToExclude_eq)
  have returned: "?again = filter (\<lambda>t. t \<in> set S) allTools"
    using True by (simp add: convertAllowedToolsToExclude_eq exclude_then_allow)
  have same: "filter (\<lambda>t. t \<in> set S) allTools = S" if "S = filter P allTools" for P
    by (subst (1 2) that) (rule filter_member_filter)
  have sets: "set ?again = set S"
    unfolding returned using assms by auto
  have lists: "\<forall>P. S = filter P allTools \<longrightarrow> ?again = S"
    unfolding returned using same by blast
  have "\<not> length (filter (\<lambda>t. t \<notin> set S) allTools) \<le> length S"
    using True by simp
  with forth returned sets lists show ?thesis
    by blast
next
  case False
  then show ?thesis
    by (simp add: convertAllowedToolsToExclude_eq allow_of_empty)
qed

theorem permission_roundtrip_witness:
  "convertAllowedToolsToExclude (ToolsArray [''Read'', ''Bash'']) None
     = ([''Write'', ''Edit'', ''Glob'', ''Grep'', ''Task'', ''WebFetch'', ''WebSearch'',
         ''TodoWrite'', ''AskUserQuestion'', ''SlashCommand'', ''Skill'', ''NotebookEdit'',
         ''BashOutput'', ''KillShell''], None)
   \<and> convertExcludeToAllowedTools
        (fst (convertAllowedToolsToExclude (ToolsArray [''Read'', ''Bash'']) None))
     = [''Read'', ''Bash'']"
  using permission_roundtrip [of "[''Read'', ''Bash'']" None]
  by (simp add: allTools_def convertExcludeToAllowedTools_def)

text \<open>
  Claim C2, as stated: the empty exclusion list and the warning are produced exactly
  when the exclusion set has fewer elements than the allowed list, a tie included in
  the other case.  At the tie of eight allowed tokens against eight excluded ones the
  exclusion set is not smaller, and still the result is the empty list with the
  warning.
\<close>

theorem exclude_threshold_counterexample:
  "\<not> length (filter (\<lambda>t. t \<notin> set [''Read'', ''Write'', ''Edit'', ''Glob'', ''Grep'', ''Bash'',
                                      ''Task'', ''WebFetch'']) allTools)
       < length [''Read'', ''Write'', ''Edit'', ''Glob'', ''Grep'', ''Bash'', ''Task'',
                 ''WebFetch'']
   \<and> convertAllowedToolsToExclude
        (ToolsArray [''Read'', ''Write'', ''Edit'', ''Glob'', ''Grep'', ''Bash'', ''Task'',
                     ''WebFetch'']) None
       = ([], Some [toolWarning])
   \<and> convertAllowedToolsToExclude
        (ToolsArray [''Read'', ''Write'', ''Edit'', ''Glob'', ''Grep'', ''Bash'', ''Task'',
                     ''WebFetch'']) None
       \<noteq> (filter (\<lambda>t. t \<notin> set [''Read'', ''Write'', ''Edit'', ''Glob'', ''Grep'', ''Bash'',
                                    ''Task'', ''WebFetch'']) allTools, None)"
  by (simp add: convertAllowedToolsToExclude_eq allTools_def pushWarning_def)

text \<open>
  Claim C2, amended: for every value of the allowed list, the empty exclusion list
  together with the advisory warning is produced exactly when the exclusion set
  (universe minus allowed) has at most as many elements as the allowed list, a tie
  included; in every other case the result is universe minus allowed, with no warning
  added, and in both cases the result follows the universe's declared order.
\<close>

theorem exclude_threshold:
  "(fst (convertAllowedToolsToExclude v w) = [] \<and>
      snd (convertAllowedToolsToExclude v w) = pushWarning w toolWarning
    \<longleftrightarrow> length (filter (\<lambda>t. t \<notin> set (normalizeAllowed v)) allTools)
          \<le> length (normalizeAllowed v))
   \<and> (length (normalizeAllowed v)
          < length (filter (\<lambda>t. t \<notin> set (normalizeAllowed v)) allTools)
        \<longrightarrow> convertAllowedToolsToExclude v w
              = (filter (\<lambda>t. t \<notin> set (normalizeAllowed v)) allTools, w))
   \<and> subseq (fst (convertAllowedToolsToExclude v w)) allTools"
  using pushWarning_changes [of w toolWarning]
  by (auto simp: convertAllowedToolsToExclude_eq subseq_filter_allTools)

theorem exclude_threshold_witness:
  "convertAllowedToolsToExclude (ToolsArray [''Write'', ''Read'', ''Bash'']) (Some [])
     = ([''Edit'', ''Glob'', ''Grep'', ''Task'', ''WebFetch'', ''WebSearch'', ''TodoWrite'',
         ''AskUserQuestion'', ''SlashCommand'', ''Skill'', ''NotebookEdit'', ''BashOutput'',
         ''KillShell''], Some [])"
  using exclude_threshold [of "ToolsArray [''Write'', ''Read'', ''Bash'']" "Some []"]
  by (simp add: allTools_def)

text \<open>
  Claim C8, as stated: a token outside the universe is kept in the converted
  permission field.  Neither direction keeps it: the unknown token \<open>Foo\<close> of a
  whitelist is not in the blacklist computed from it, and the unknown token of a
  blacklist is not in the whitelist computed from it.
\<close>

theorem unknown_token_counterexample:
  "''Foo'' \<notin> set allTools
   \<and> ''Foo'' \<in> set [''Read'', ''Foo'']
   \<and> ''Foo'' \<notin> set (fst (convertAllowedToolsToExclude (ToolsArray [''Read'', ''Foo'']) None))
   \<and> ''Foo'' \<in> set [''Bash'', ''Foo'']
   \<and> ''Foo'' \<notin> set (convertExcludeToAllowedTools [''Bash'', ''Foo''])"
  by (simp add: convertAllowedToolsToExclude_eq allTools_def convertExcludeToAllowedTools_def)

text \<open>
  Claim C8, amended: a token outside the universe never appears in a converted
  permission field; both directions return universe tokens only, so an unknown token
  of the input list is left out of the result.
\<close>

theorem unknown_token_dropped:
  assumes "t \<notin> set allTools"
  shows "t \<notin> set (fst (convertAllowedToolsToExclude v w))
       \<and> t \<notin> set (convertExcludeToAllowedTools e)"
  using assms by (simp add: convertAllowedToolsToExclude_eq convertExcludeToAllowedTools_def)

theorem unknown_token_dropped_witness:
  "''Foo'' \<notin> set allTools
   \<and> ''Foo'' \<notin> set (fst (convertAllowedToolsToExclude (ToolsArray [''Read'', ''Foo'']) None))
   \<and> ''Foo'' \<notin> set (convertExcludeToAllowedTools [''Bash'', ''Foo''])"
proof -
  have h: "''Foo'' \<notin> set allTools" by (simp add: allTools_def)
  show ?thesis
    using h unknown_token_dropped [OF h, of "ToolsArray [''Read'', ''Foo'']" None "[''Bash'', ''Foo'']"]
    by simp
qed

section \<open>Properties of the settings inference\<close>

lemma includes_str_sublist: "includes_str s sub \<longleftrightarrow> sublist sub s"
  by (induction s) (auto simp: sublist_Cons_right)

lemma split_on_nonempty: "split_on c s \<noteq> []"
  by (induction s) (auto split: list.splits)

lemma join_with_Cons: "join_with sep (x # ws) = x @ concat (map ((@) sep) ws)"
  by (induction ws arbitrary: x) simp_all

lemma join_split_on: "join_with [c] (split_on c s) = s"
proof (induction s)
  case Nil
  then show ?case by simp
next
  case (Cons x xs)
  then show ?case
    using split_on_nonempty [of c xs]
    by (cases "split_on c xs") (auto simp: join_with_Cons split: list.splits)
qed

lemma length_join_map:
  assumes "\<And>w. length (f w) = length w"
  shows "length (join_with [a] (map f ws)) = length (join_with [b] ws)"
proof (cases ws)
  case Nil
  then show ?thesis by simp
next
  case (Cons x xs)
  have "length (concat (map ((@) [a]) (map f xs))) = length (concat (map ((@) [b]) xs))"
    by (induction xs) (simp_all add: assms)
  then show ?thesis by (simp add: Cons join_with_Cons assms)
qed

lemma length_capitalizeWord: "length (capitalizeWord w) = length w"
  by (cases w) (simp_all add: capitalizeWord_def toLowerCase_def)

lemma length_generated_description:
  "length (join_with '' '' (map capitalizeWord (split_on c n))) = length n"
  using length_join_map [of capitalizeWord "CHR '' ''" "split_on c n" c]
  by (simp add: length_capitalizeWord join_split_on)

lemma inferDescription_present:
  "n \<noteq> [] \<Longrightarrow> n \<notin> set objectPrototypeKeys \<Longrightarrow> description_present (inferDescription n)"
  using length_generated_description [of "CHR ''_''" n]
  by (auto simp: inferDescription_def description_present_def js_get_def Let_def
           split: property.splits option.splits)

lemma add_seg_Some:
  "add_seg seg r = Some (segs, rest) \<longleftrightarrow> (\<exists>t. segs = seg # t \<and> r = Some (t, rest))"
  by (cases r) (auto simp: add_seg_def)

lemma grow_seg_Some:
  "grow_seg x r = Some (segs, rest) \<longleftrightarrow>
     (\<exists>seg t. segs = (x # seg) # t \<and> r = Some (seg # t, rest))"
  by (cases r) (auto simp: grow_seg_def split: list.splits)

lemma rmatch_length: "rmatch r prev s = Some (segs, rest) \<Longrightarrow> length segs = length r"
proof (induction r prev s arbitrary: segs rest rule: rmatch.induct)
  case (6 c r prev x xs)
  then show ?case
    by (cases "cclass_ok c x"; cases "grow_seg x (rmatch (StarGreedy c # r) (Some x) xs)")
       (auto simp: add_seg_Some grow_seg_Some)
next
  case (8 c r prev x xs)
  then show ?case
    by (cases "cclass_ok c x"; cases "add_seg [] (rmatch r prev (x # xs))")
       (auto simp: add_seg_Some grow_seg_Some)
qed (auto simp: add_seg_Some split: if_splits)

lemma rmatch_placeholder:
  assumes "rmatch placeholderPattern prev s = Some (segs, rest)"
  shows "\<exists>x cs l. segs = [''${'', [x], cs, l]"
proof -
  from assms obtain a where a: "segs = ''${'' # a"
    and m: "\<exists>p t. rmatch [One CDot, StarGreedy CDot, Lit ''}''] p t = Some (a, rest)"
    by (auto simp: placeholderPattern_def add_seg_Some split: if_splits)
  then obtain p t where m0: "rmatch [One CDot, StarGreedy CDot, Lit ''}''] p t = Some (a, rest)"
    by blast
  then obtain x xs b where b: "a = [x] # b"
    and m': "rmatch [StarGreedy CDot, Lit ''}''] (Some x) xs = Some (b, rest)"
    by (cases t) (auto simp: add_seg_Some split: if_splits)
  from rmatch_length [OF m'] obtain cs l where "b = [cs, l]"
    by (cases b; cases "tl b") auto
  with a b show ?thesis by simp
qed

lemma rsearch_rmatch:
  "rsearch r prev s = Some (before, segs, rest) \<Longrightarrow>
     \<exists>p t. rmatch r p t = Some (segs, rest) \<and> s = before @ t"
proof (induction r prev s arbitrary: before rule: rsearch.induct)
  case (1 r prev)
  then show ?case by (auto split: option.splits)
next
  case (2 r prev x xs)
  show ?case
  proof (cases "rmatch r prev (x # xs)")
    case None
    with 2 show ?thesis
      by (auto split: option.splits)
  next
    case (Some a)
    with 2 show ?thesis by (auto split: option.splits)
  qed
qed

lemma placeholderName_nonempty: "placeholderName v = Some n \<Longrightarrow> n \<noteq> []"
proof -
  assume a: "placeholderName v = Some n"
  then obtain s where v: "v = EnvString s" by (cases v) (auto simp: placeholderName_def)
  from a v obtain before segs rest where
    r: "rsearch placeholderPattern None s = Some (before, segs, rest)"
    by (cases "rsearch placeholderPattern None s") (auto simp: placeholderName_def)
  from rsearch_rmatch [OF r] rmatch_placeholder obtain x cs l where "segs = [''${'', [x], cs, l]"
    by blast
  with a v r show ?thesis by (auto simp: placeholderName_def)
qed

lemma envCaptured_simps:
  "envCaptured [] = []"
  "envCaptured ((key, v) # es) =
     (case placeholderName v of None \<Rightarrow> envCaptured es | Some n \<Rightarrow> n # envCaptured es)"
  by (simp_all add: envCaptured_def List.map_filter_simps split: option.splits)

lemma first_seen_append:
  "first_seen (xs @ ys) seen = first_seen xs seen @ first_seen ys (seen \<union> set xs)"
  by (induction xs arbitrary: seen) (auto simp: insert_absorb)

lemma inferFromEnv_eq:
  "inferFromEnv es (ss, seen) =
     (ss @ map inferSetting (first_seen (envCaptured es) seen), seen \<union> set (envCaptured es))"
proof (induction es arbitrary: ss seen)
  case Nil
  then show ?case by (simp add: envCaptured_simps)
next
  case (Cons a es)
  obtain key v where a: "a = (key, v)" by (cases a)
  show ?case
    by (cases "placeholderName v") (auto simp: a Cons envCaptured_simps insert_absorb)
qed

lemma captured_simps:
  "captured [] = []"
  "captured ((n, c) # cs) =
     (case env c of None \<Rightarrow> [] | Some e \<Rightarrow> envCaptured e) @ captured cs"
  by (simp_all add: captured_def)

lemma inferFromServers_eq:
  "inferFromServers cs (ss, seen) =
     (ss @ map inferSetting (first_seen (captured cs) seen), seen \<union> set (captured cs))"
proof (induction cs arbitrary: ss seen)
  case Nil
  then show ?case by (simp add: captured_simps)
next
  case (Cons a cs)
  obtain n c where a: "a = (n, c)" by (cases a)
  show ?case
    by (cases "env c")
       (auto simp: a Cons captured_simps inferFromEnv_eq first_seen_append Un_assoc)
qed

lemma inferSettings_eq:
  "inferSettingsFromMCPConfig servers = map inferSetting (first_seen (captured servers) {})"
  by (simp add: inferSettingsFromMCPConfig_def inferFromServers_eq)

lemma setting_name_inferSetting [simp]: "setting_name (inferSetting n) = n"
  by (simp add: inferSetting_def Let_def split: property.splits)

lemma setting_description_inferSetting [simp]:
  "setting_description (inferSetting n) = inferDescription n"
  by (simp add: inferSetting_def Let_def split: property.splits)

lemma secret_inferSetting:
  "secret (inferSetting n) = (if looksSecret n then Some True else None)"
  "required (inferSetting n) = (if looksSecret n then Some True else None)"
  by (simp_all add: inferSetting_def Let_def split: property.splits)

lemma set_first_seen: "set (first_seen xs seen) = set xs - seen"
  by (induction xs arbitrary: seen) auto

lemma distinct_first_seen: "distinct (first_seen xs seen)"
  by (induction xs arbitrary: seen) (auto simp: set_first_seen)

lemma remdups_snoc: "remdups (ys @ [x]) = filter (\<lambda>y. y \<noteq> x) (remdups ys) @ [x]"
  by (induction ys) auto

lemma first_seen_remdups:
  "first_seen xs seen = rev (remdups (rev (filter (\<lambda>x. x \<notin> seen) xs)))"
proof (induction xs arbitrary: seen)
  case Nil
  then show ?case by simp
next
  case (Cons x xs)
  show ?case
  proof (cases "x \<in> seen")
    case True
    then show ?thesis by (simp add: Cons)
  next
    case False
    have "rev (remdups (rev (filter (\<lambda>y. y \<notin> seen) (x # xs))))
            = x # rev (filter (\<lambda>y. y \<noteq> x) (remdups (rev (filter (\<lambda>y. y \<notin> seen) xs))))"
      using False by (simp add: remdups_snoc)
    also have "filter (\<lambda>y. y \<noteq> x) (remdups (rev (filter (\<lambda>y. y \<notin> seen) xs)))
            = remdups (rev (filter (\<lambda>y. y \<notin> insert x seen) xs))"
      by (simp add: remdups_filter [symmetric] rev_filter [symmetric] conj_commute)
    finally show ?thesis using False by (simp add: Cons)
  qed
qed

lemma first_seen_empty: "first_seen xs {} = rev (remdups (rev xs))"
  by (simp add: first_seen_remdups)

lemma looksSecret_sublist:
  "looksSecret n \<longleftrightarrow>
     (\<exists>w \<in> set [''password'', ''secret'', ''token'', ''key'']. sublist w (toLowerCase n))"
  by (simp add: looksSecret_def includes_str_sublist)

lemma captured_nonempty: "n \<in> set (captured servers) \<Longrightarrow> n \<noteq> []"
proof (induction servers)
  case Nil
  then show ?case by (simp add: captured_simps)
next
  case (Cons a cs)
  obtain k c where a: "a = (k, c)" by (cases a)
  from Cons show ?case
    by (auto simp: a captured_simps envCaptured_def List.map_filter_def
             dest: placeholderName_nonempty split: option.splits)
qed

text \<open>
  Claim C5: every descriptor the inference produces has \<open>secret\<close> and \<open>required\<close> set to
  true exactly when its name, in lower case, contains one of \<open>password\<close>, \<open>secret\<close>,
  \<open>token\<close>, \<open>key\<close>, and has both fields absent otherwise; \<open>DB_PASSWORD\<close> gets both
  flags, \<open>LOG_LEVEL\<close> gets neither.
\<close>

theorem secret_inference:
  "(\<forall>s \<in> set (inferSettingsFromMCPConfig servers).
      ((secret s = Some True \<and> required s = Some True) \<longleftrightarrow>
         (\<exists>w \<in> set [''password'', ''secret'', ''token'', ''key''].
            sublist w (toLowerCase (setting_name s))))
      \<and> ((secret s = None \<and> required s = None) \<longleftrightarrow>
         \<not> (\<exists>w \<in> set [''password'', ''secret'', ''token'', ''key''].
            sublist w (toLowerCase (setting_name s)))))
   \<and> inferSettingsFromMCPConfig
        [(''db'', \<lparr>command = Some ''node'', args = None,
                   env = Some [(''DB_PASSWORD'', EnvString ''${DB_PASSWORD}''),
                               (''LOG_LEVEL'', EnvString ''${LOG_LEVEL}'')]\<rparr>)]
      = [\<lparr>setting_name = ''DB_PASSWORD'',
           setting_description = DescriptionString ''Database password'',
           secret = Some True, required = Some True, setting_default = None\<rparr>,
         \<lparr>setting_name = ''LOG_LEVEL'',
           setting_description = DescriptionString ''Log Level'',
           secret = None, required = None, setting_default = None\<rparr>]"
proof (intro conjI ballI)
  fix s assume "s \<in> set (inferSettingsFromMCPConfig servers)"
  then obtain n where s: "s = inferSetting n"
    by (auto simp: inferSettings_eq)
  show "(secret s = Some True \<and> required s = Some True) \<longleftrightarrow>
          (\<exists>w \<in> set [''password'', ''secret'', ''token'', ''key''].
             sublist w (toLowerCase (setting_name s)))"
    unfolding s setting_name_inferSetting looksSecret_sublist [symmetric]
    by (simp add: secret_inferSetting)
  show "(secret s = None \<and> required s = None) \<longleftrightarrow>
          \<not> (\<exists>w \<in> set [''password'', ''secret'', ''token'', ''key''].
             sublist w (toLowerCase (setting_name s)))"
    unfolding s setting_name_inferSetting looksSecret_sublist [symmetric]
    by (simp add: secret_inferSetting)
next
  show "inferSettingsFromMCPConfig
        [(''db'', \<lparr>command = Some ''node'', args = None,
                   env = Some [(''DB_PASSWORD'', EnvString ''${DB_PASSWORD}''),
                               (''LOG_LEVEL'', EnvString ''${LOG_LEVEL}'')]\<rparr>)]
      = [\<lparr>setting_name = ''DB_PASSWORD'',
           setting_description = DescriptionString ''Database password'',
           secret = Some True, required = Some True, setting_default = None\<rparr>,
         \<lparr>setting_name = ''LOG_LEVEL'',
           setting_description = DescriptionString ''Log Level'',
           secret = None, required = None, setting_default = None\<rparr>]"
    by code_simp
qed

lemma api_token_setting:
  "inferSettingsFromMCPConfig
     [(''api'', \<lparr>command = Some ''node'', args = None,
                  env = Some [(''TOKEN'', EnvString ''${Api_Token}'')]\<rparr>)]
   = [\<lparr>setting_name = ''Api_Token'', setting_description = DescriptionString ''Api Token'',
        secret = Some True, required = Some True, setting_default = None\<rparr>]"
  by code_simp

theorem secret_inference_witness:
  "\<lparr>setting_name = ''Api_Token'', setting_description = DescriptionString ''Api Token'',
     secret = Some True, required = Some True, setting_default = None\<rparr>
     \<in> set (inferSettingsFromMCPConfig
              [(''api'', \<lparr>command = Some ''node'', args = None,
                           env = Some [(''TOKEN'', EnvString ''${Api_Token}'')]\<rparr>)])
   \<and> sublist ''token'' (toLowerCase ''Api_Token'')"
proof -
  have "includes_str (toLowerCase ''Api_Token'') ''token''"
    by code_simp
  then have "sublist ''token'' (toLowerCase ''Api_Token'')"
    by (simp only: includes_str_sublist)
  then show ?thesis
    using secret_inference
            [of "[(''api'', \<lparr>command = Some ''node'', args = None,
                              env = Some [(''TOKEN'', EnvString ''${Api_Token}'')]\<rparr>)]"]
    by (simp add: api_token_setting)
qed

lemma inferred_names_first_seen:
  "map setting_name (inferSettingsFromMCPConfig servers) = first_seen (captured servers) {}
   \<and> map setting_name (inferSettingsFromMCPConfig servers)
       = rev (remdups (rev (captured servers)))
   \<and> distinct (map setting_name (inferSettingsFromMCPConfig servers))
   \<and> set (map setting_name (inferSettingsFromMCPConfig servers)) = set (captured servers)
   \<and> (\<forall>s \<in> set (inferSettingsFromMCPConfig servers).
         setting_name s \<noteq> []
         \<and> (setting_name s \<notin> set objectPrototypeKeys
              \<longrightarrow> description_present (setting_description s)))"
proof -
  have names: "map setting_name (inferSettingsFromMCPConfig servers)
                 = first_seen (captured servers) {}"
    by (simp add: inferSettings_eq comp_def)
  have "\<forall>s \<in> set (inferSettingsFromMCPConfig servers).
          setting_name s \<noteq> []
          \<and> (setting_name s \<notin> set objectPrototypeKeys
               \<longrightarrow> description_present (setting_description s))"
    by (auto simp: inferSettings_eq set_first_seen
             dest: captured_nonempty intro: inferDescription_present)
  with names show ?thesis
    by (simp add: first_seen_empty [symmetric] distinct_first_seen set_first_seen)
qed

lemma rmatch_greedy_name:
  "CHR ''}'' \<notin> set cs \<Longrightarrow> \<forall>c \<in> set cs. \<not> line_terminator c \<Longrightarrow>
     rmatch [StarGreedy CDot, Lit ''}''] p (cs @ ''}'') = Some ([cs, ''}''], [])"
  by (induction cs arbitrary: p)
     (simp_all add: add_seg_def grow_seg_def line_terminator_def prev_after_def)

lemma specPlaceholder_Some:
  assumes "specPlaceholder v = Some n"
  shows "v = EnvString (''${'' @ n @ ''}'') \<and> specName n"
proof -
  from assms obtain s where v: "v = EnvString s"
    by (cases v) (simp_all add: specPlaceholder_def)
  from assms v have p: "prefix ''${'' s" and q: "suffix ''}'' s"
    and n: "n = butlast (drop 2 s)" and sn: "specName n"
    by (auto simp: specPlaceholder_def split: if_splits)
  from p obtain t where t: "s = ''${'' @ t" by (auto simp: prefix_def)
  from sn n t have "t \<noteq> []" by (auto simp: specName_def)
  from q have "last s = CHR ''}''" by (auto simp: suffix_def)
  moreover from t \<open>t \<noteq> []\<close> have "last s = last t" by simp
  ultimately have "last t = CHR ''}''" by simp
  with \<open>t \<noteq> []\<close> have "t = butlast t @ ''}''"
    using append_butlast_last_id [of t] by simp
  with n t have "s = ''${'' @ n @ ''}''" by simp
  with v sn show ?thesis by simp
qed

lemma placeholderName_spec:
  assumes "specPlaceholder v = Some n" and "\<forall>c \<in> set n. \<not> line_terminator c"
  shows "placeholderName v = Some n"
proof -
  from specPlaceholder_Some [OF assms(1)]
  have v: "v = EnvString (''${'' @ n @ ''}'')" and sn: "specName n" by simp_all
  from sn obtain x cs where n: "n = x # cs" by (cases n) (simp_all add: specName_def)
  from sn assms(2) n have "rmatch [StarGreedy CDot, Lit ''}''] (Some x) (cs @ ''}'') = Some ([cs, ''}''], [])"
    by (intro rmatch_greedy_name) (simp_all add: specName_def)
  with assms(2) n have "rmatch placeholderPattern None (''${'' @ n @ ''}'')
                  = Some ([''${'', [x], cs, ''}''], [])"
    by (simp add: placeholderPattern_def add_seg_def prev_after_def)
  then show ?thesis by (simp add: v n placeholderName_def)
qed

lemma captured_referenced:
  assumes "\<And>serverName config e key v.
             (serverName, config) \<in> set servers \<Longrightarrow> env config = Some e \<Longrightarrow>
             (key, v) \<in> set e \<Longrightarrow> placeholderName v = specPlaceholder v"
  shows "captured servers = referenced servers"
proof -
  have "envCaptured e = List.map_filter (\<lambda>(key, v). specPlaceholder v) e"
    if "(serverName, config) \<in> set servers" "env config = Some e" for serverName config e
    unfolding envCaptured_def List.map_filter_def
    using assms [OF that] by (auto intro!: map_cong filter_cong)
  then show ?thesis
    unfolding captured_def referenced_def
    by (auto intro!: arg_cong [where f = concat] map_cong split: option.splits)
qed

lemma referenced_specName: "n \<in> set (referenced servers) \<Longrightarrow> specName n"
  by (auto simp: referenced_def List.map_filter_def split: option.splits
           dest: specPlaceholder_Some)

lemma inference_agrees_with_grammar:
  assumes "\<And>serverName config e key v.
             (serverName, config) \<in> set servers \<Longrightarrow> env config = Some e \<Longrightarrow>
             (key, v) \<in> set e \<Longrightarrow> placeholderName v = specPlaceholder v"
  shows "map setting_name (inferSettingsFromMCPConfig servers)
           = first_seen (referenced servers) {}
         \<and> distinct (map setting_name (inferSettingsFromMCPConfig servers))
         \<and> set (map setting_name (inferSettingsFromMCPConfig servers))
             = set (referenced servers)
         \<and> (\<forall>s \<in> set (inferSettingsFromMCPConfig servers).
               specName (setting_name s)
               \<and> (setting_name s \<notin> set objectPrototypeKeys
                    \<longrightarrow> description_present (setting_description s)))"
proof -
  have same: "captured servers = referenced servers"
    by (rule captured_referenced) (rule assms)
  have "specName (setting_name s)" if "s \<in> set (inferSettingsFromMCPConfig servers)" for s
  proof -
    from that have "setting_name s \<in> set (map setting_name (inferSettingsFromMCPConfig servers))"
      by simp
    with inferred_names_first_seen [of servers] same
    have "setting_name s \<in> set (referenced servers)" by (simp add: set_first_seen)
    then show ?thesis by (rule referenced_specName)
  qed
  with inferred_names_first_seen [of servers] same show ?thesis
    by (simp add: set_first_seen distinct_first_seen)
qed

lemma two_servers_captured:
  "captured
     [(''one'', \<lparr>command = Some ''node'', args = None,
                  env = Some [(''KEY'', EnvString ''${API_KEY}'')]\<rparr>),
      (''two'', \<lparr>command = Some ''node'', args = None,
                  env = Some [(''HOST'', EnvString ''${HOST}''),
                              (''TOKEN'', EnvString ''${API_KEY}'')]\<rparr>)]
   = [''API_KEY'', ''HOST'', ''API_KEY'']"
  by code_simp

lemma two_servers_names:
  "map setting_name (inferSettingsFromMCPConfig
     [(''one'', \<lparr>command = Some ''node'', args = None,
                  env = Some [(''KEY'', EnvString ''${API_KEY}'')]\<rparr>),
      (''two'', \<lparr>command = Some ''node'', args = None,
                  env = Some [(''HOST'', EnvString ''${HOST}''),
                              (''TOKEN'', EnvString ''${API_KEY}'')]\<rparr>)])
   = [''API_KEY'', ''HOST'']"
  using inferred_names_first_seen
          [of "[(''one'', \<lparr>command = Some ''node'', args = None,
                            env = Some [(''KEY'', EnvString ''${API_KEY}'')]\<rparr>),
                (''two'', \<lparr>command = Some ''node'', args = None,
                            env = Some [(''HOST'', EnvString ''${HOST}''),
                                        (''TOKEN'', EnvString ''${API_KEY}'')]\<rparr>)]"]
  by (simp add: two_servers_captured)

text \<open>
  Claim C6: for every map of server configurations the inference produces exactly one
  descriptor for each distinct variable name that a placeholder in an environment
  value references, at its first occurrence, and every descriptor has a name and a
  description.  The program does so wherever its pattern reads out of every value
  what the grammar of the specification describes (\<open>inference_agrees_with_grammar\<close>,
  for names that no object inherits), and it differs elsewhere, in two ways.  Its
  pattern takes the text between the first \<^verbatim>\<open>${\<close> and the last \<^verbatim>\<open>}\<close> of a line: for
  the value \<^verbatim>\<open>${DB_HOST}:${DB_PORT}\<close> it produces one descriptor named
  \<^verbatim>\<open>DB_HOST}:${DB_PORT\<close>, which is no name of the grammar (read as a whole the value
  references no variable, and read part by part it references \<^verbatim>\<open>DB_HOST\<close> and
  \<^verbatim>\<open>DB_PORT\<close>).  And it looks the description up in a table that inherits from the
  object prototype: for the variable \<^verbatim>\<open>constructor\<close>, referenced by the value
  \<^verbatim>\<open>${constructor}\<close>, the description of the descriptor is the function found there
  and no text.
\<close>

theorem settings_inference_diverges:
  "inferSettingsFromMCPConfig
     [(''db'', \<lparr>command = Some ''node'', args = None,
                 env = Some [(''DATABASE'', EnvString ''${DB_HOST}:${DB_PORT}'')]\<rparr>)]
     = [\<lparr>setting_name = ''DB_HOST}:${DB_PORT'',
          setting_description = DescriptionString ''Db Host}:${db Port'',
          secret = None, required = None, setting_default = None\<rparr>]
   \<and> \<not> specName ''DB_HOST}:${DB_PORT''
   \<and> referenced
       [(''js'', \<lparr>command = Some ''node'', args = None,
                   env = Some [(''CLASS'', EnvString ''${constructor}'')]\<rparr>)]
     = [''constructor'']
   \<and> inferSettingsFromMCPConfig
       [(''js'', \<lparr>command = Some ''node'', args = None,
                   env = Some [(''CLASS'', EnvString ''${constructor}'')]\<rparr>)]
     = [\<lparr>setting_name = ''constructor'', setting_description = DescriptionInherited,
          secret = None, required = None, setting_default = None\<rparr>]
   \<and> \<not> description_present DescriptionInherited"
  by code_simp

section \<open>Properties of the detector\<close>





lemma detect_result:
  assumes "detect L fs dirPath = Inr d"
  shows "(det_platform d, det_confidence d)
           = classify (detectClaudeFiles L fs dirPath) (detectGeminiFiles L fs dirPath)
         \<and> det_claude d = detectClaudeFiles L fs dirPath
         \<and> det_gemini d = detectGeminiFiles L fs dirPath"
  using assms
  by (auto simp: detect_def Let_def split: if_splits prod.splits sum.splits)


text \<open>
  Claim C4: for every existing directory, detection classifies it as Both when files
  of both schemas are found, as A or B when files of one schema only are found, and as
  Unknown otherwise, with confidence high exactly when the platform is not Unknown.
  The rule itself is as claimed (\<open>detect_classification\<close>) wherever detection returns,
  and it returns when neither manifest path is a directory.  In the directory below
  the entry \<open>gemini-extension.json\<close> exists and cannot be read as a file: it is counted
  as a file of schema B, and then the metadata extraction reads it outside any
  \<^verbatim>\<open>try\<close>, so detection throws instead of classifying the directory as B.
\<close>

theorem detect_unreadable_manifest:
  "checkDirectoryExists
     (Map.empty([''ext''] \<mapsto> Dir, [''ext'', ''gemini-extension.json''] \<mapsto> Dir)) [''ext'']
   \<and> detectClaudeFiles L
        (Map.empty([''ext''] \<mapsto> Dir, [''ext'', ''gemini-extension.json''] \<mapsto> Dir)) [''ext'']
       = []
   \<and> detectGeminiFiles L
        (Map.empty([''ext''] \<mapsto> Dir, [''ext'', ''gemini-extension.json''] \<mapsto> Dir)) [''ext'']
       = [\<lparr>fe_file = ''gemini-extension.json'', fe_type = ''manifest'',
            fe_valid = Some False, fe_issue = Some ''Invalid JSON''\<rparr>]
   \<and> detect L
        (Map.empty([''ext''] \<mapsto> Dir, [''ext'', ''gemini-extension.json''] \<mapsto> Dir)) [''ext'']
       = Inl ''Detection failed: EISDIR: illegal operation on a directory, read''"
  by (simp add: detect_def checkDirectoryExists_def lookup_def detectClaudeFiles_def
        detectGeminiFiles_def fileExists_def skillPath_def marketplacePath_def manifestPath_def
        isValidJSON_def readFile_def classify_def extractMetadata_def Let_def io_message_def
        path_string_def detectSharedFiles_def)

section \<open>Properties of the converters\<close>






text \<open>
  Claim C3: converting a schema A document to schema B and back duplicates neither
  the quick-start banner nor the conversion footer, because each direction strips the
  patterns of the other before it emits its own.  Only the direction from B to A
  strips anything (\<open>cleanContent\<close>); \<open>geminiContext\<close> copies the body as it is.  For the
  entry document below, itself the result of an earlier conversion from B to A, the
  body holds the footer of that conversion once; the context document written from it
  still holds it once; and the entry document regenerated from that context holds it
  twice.  The manifest of the second step is the one the first step builds for these
  name and description.
\<close>

theorem roundtrip_footer_duplicated:
  "remove_first frontmatterBlockPattern
     (''---\<newline>name: db-helper\<newline>description: Helps with databases\<newline>---\<newline>''
      @ ''\<newline># db-helper - Claude Code Skill\<newline>\<newline>Helps with databases\<newline>\<newline>Ask about tables.\<newline>\<newline>---\<newline>\<newline>''
      @ claudeFooter)
     = ''\<newline># db-helper - Claude Code Skill\<newline>\<newline>Helps with databases\<newline>\<newline>Ask about tables.\<newline>\<newline>---\<newline>\<newline>''
       @ claudeFooter
   \<and> map_sum id (\<lambda>(m, w). (out_name m, out_description m))
        (buildGeminiManifest
           \<lparr>src_frontmatter = Some \<lparr>fm_name = Some ''db-helper'',
                                      fm_description = Some ''Helps with databases'',
                                      fm_allowed_tools = None\<rparr>,
             src_content = ''\<newline># db-helper - Claude Code Skill\<newline>\<newline>Helps with databases\<newline>\<newline>Ask about tables.\<newline>\<newline>---\<newline>\<newline>''
                           @ claudeFooter,
             src_marketplace = None\<rparr> None)
     = Inr (Some ''db-helper'', ''Helps with databases'')
   \<and> occurrences claudeFooter
        (''\<newline># db-helper - Claude Code Skill\<newline>\<newline>Helps with databases\<newline>\<newline>Ask about tables.\<newline>\<newline>---\<newline>\<newline>''
         @ claudeFooter) = 1
   \<and> occurrences claudeFooter
        (geminiContext
           \<lparr>fm_name = Some ''db-helper'', fm_description = Some ''Helps with databases'',
             fm_allowed_tools = None\<rparr>
           (''\<newline># db-helper - Claude Code Skill\<newline>\<newline>Helps with databases\<newline>\<newline>Ask about tables.\<newline>\<newline>---\<newline>\<newline>''
            @ claudeFooter)) = 1
   \<and> map_sum id (occurrences claudeFooter)
        (skillBody
           \<lparr>gm_name = Some ''db-helper'', gm_version = Some ''1.0.0'',
             gm_description = Some ''Helps with databases'',
             gm_contextFileName = Some ''GEMINI.md'', gm_excludeTools = None,
             gm_mcpServers = None, gm_settings = None\<rparr>
           (geminiContext
              \<lparr>fm_name = Some ''db-helper'', fm_description = Some ''Helps with databases'',
                fm_allowed_tools = None\<rparr>
              (''\<newline># db-helper - Claude Code Skill\<newline>\<newline>Helps with databases\<newline>\<newline>Ask about tables.\<newline>\<newline>---\<newline>\<newline>''
               @ claudeFooter)))
     = Inr 2"
  by code_simp

section \<open>Properties of the validator\<close>

lemma add_seg_None [simp]: "add_seg seg None = None"
  by (simp add: add_seg_def)

lemma grow_seg_None [simp]: "grow_seg x None = None"
  by (simp add: grow_seg_def)

lemma rmatch_star_eos:
  "rmatch [StarGreedy C, Eos] prev s =
     (if \<forall>c \<in> set s. cclass_ok C c then Some ([s, []], []) else None)"
  by (induction s arbitrary: prev) (auto simp: add_seg_def grow_seg_def)

lemma rsearch_bos_later: "rsearch (Bos # r) (Some p) s = None"
  by (induction s arbitrary: p) simp_all

lemma regex_test_bos:
  "regex_test (Bos # r) s \<longleftrightarrow> rmatch r None s \<noteq> None"
  by (cases s) (auto simp: regex_test_def rsearch_bos_later add_seg_def split: option.splits)

lemma regex_test_all_of_class:
  "regex_test [Bos, One C, StarGreedy C, Eos] s \<longleftrightarrow>
     s \<noteq> [] \<and> (\<forall>c \<in> set s. cclass_ok C c)"
  unfolding regex_test_bos
  by (cases s) (auto simp: rmatch_star_eos add_seg_def)

lemma regex_test_namePattern:
  "regex_test namePattern s \<longleftrightarrow>
     s \<noteq> [] \<and> (\<forall>c \<in> set s. c \<in> set ''abcdefghijklmnopqrstuvwxyz0123456789-'')"
  unfolding namePattern_def regex_test_all_of_class by simp

lemma errors_push [simp]:
  "fst (push_error msg st) = fst st @ [msg]"
  "snd (push_error msg st) = snd st"
  "fst (push_warning msg st) = fst st"
  "snd (push_warning msg st) = snd st @ [msg]"
  "fst (push_error_if b msg st) = (if b then fst st @ [msg] else fst st)"
  "snd (push_error_if b msg st) = snd st"
  "fst (push_warning_if b msg st) = fst st"
  "snd (push_warning_if b msg st) = (if b then snd st @ [msg] else snd st)"
  by (simp_all add: push_error_def push_warning_def push_error_if_def push_warning_if_def)

lemma extends_refl [simp]: "extends st st"
  by (simp add: extends_def)

lemma extends_trans: "extends a b \<Longrightarrow> extends b c \<Longrightarrow> extends a c"
  by (auto simp: extends_def)

lemma extends_push [simp]:
  "extends st (push_error msg st)"
  "extends st (push_warning msg st)"
  "extends st (push_error_if b msg st)"
  "extends st (push_warning_if b msg st)"
  by (simp_all add: extends_def)

lemma extends_push_trans [intro]:
  "extends a st \<Longrightarrow> extends a (push_error msg st)"
  "extends a st \<Longrightarrow> extends a (push_warning msg st)"
  "extends a st \<Longrightarrow> extends a (push_error_if b msg st)"
  "extends a st \<Longrightarrow> extends a (push_warning_if b msg st)"
  by (auto simp: extends_def prefix_def)

lemma checkPlugins_extends: "extends a st \<Longrightarrow> extends a (checkPlugins i ps st)"
proof (induction ps arbitrary: i st)
  case Nil
  then show ?case by simp
next
  case (Cons p ps)
  show ?case
    unfolding checkPlugins.simps
    by (intro Cons.IH extends_push_trans Cons.prems)
qed

lemma checkServers_extends: "extends a st \<Longrightarrow> extends a (checkServers L cs st)"
proof (induction cs arbitrary: st)
  case Nil
  then show ?case by simp
next
  case (Cons c cs)
  obtain n config where c: "c = (n, config)" by (cases c)
  show ?case
    unfolding c checkServers.simps
    by (intro Cons.IH extends_push_trans Cons.prems)
qed

lemma checkSettings_extends: "extends a st \<Longrightarrow> extends a (checkSettings i xs st)"
proof (induction xs arbitrary: i st)
  case Nil
  then show ?case by simp
next
  case (Cons x xs)
  show ?case
    unfolding checkSettings.simps
    by (intro Cons.IH extends_push_trans Cons.prems)
qed

lemma checkSettingsValue_extends:
  "extends a st \<Longrightarrow> extends a (checkSettingsValue v st)"
  by (auto simp: checkSettingsValue_def intro!: checkSettings_extends
           split: option.splits settings_value.splits)

lemma checkExcludeValue_extends:
  "extends a st \<Longrightarrow> extends a (checkExcludeValue v st)"
  by (auto simp: checkExcludeValue_def split: option.splits exclude_value.splits)

lemmas extends_intros =
  extends_push_trans checkPlugins_extends checkServers_extends checkSettings_extends
  checkSettingsValue_extends checkExcludeValue_extends

lemma validateMarketplaceJSON_extends:
  "extends a st \<Longrightarrow> extends a (snd (validateMarketplaceJSON L fs p st))"
  by (auto simp: validateMarketplaceJSON_def Let_def intro!: extends_intros
           split: sum.splits parsed.splits option.splits plugins_value.splits)

lemma validateGemini_extends:
  "extends a st \<Longrightarrow> extends a (snd (validateGemini L fs p st))"
  by (auto simp: validateGemini_def Let_def intro!: extends_intros
           split: sum.splits parsed.splits option.splits)

lemma set_obj_add: "set (obj_add k v obj) = insert (k, v) (set obj)"
  by (induction obj) (auto split: option.splits if_splits)

lemma set_obj_set: "set (obj_set k v obj) \<subseteq> insert (k, v) (set obj)"
  by (auto simp: obj_set_def set_obj_add split: if_splits)

lemma strings_nonempty_obj_set:
  "strings_nonempty obj \<Longrightarrow> (\<And>s. v = YamlString s \<Longrightarrow> s \<noteq> []) \<Longrightarrow>
     strings_nonempty (obj_set k v obj)"
  using set_obj_set [of k v obj] by (auto simp: strings_nonempty_def)

lemma parseLine_nonempty:
  "strings_nonempty (fst st) \<Longrightarrow> strings_nonempty (fst (parseLine line st))"
  by (cases st)
     (auto simp: parseLine_def Let_def intro!: strings_nonempty_obj_set
           split: option.splits yaml_value.splits list.splits)

lemma fold_parseLine_nonempty:
  "strings_nonempty (fst st) \<Longrightarrow> strings_nonempty (fst (fold parseLine ls st))"
proof (induction ls arbitrary: st)
  case Nil
  then show ?case by simp
next
  case (Cons l ls)
  have "strings_nonempty (fst (parseLine l st))"
    by (rule parseLine_nonempty) (rule Cons.prems)
  then show ?case by (simp add: Cons.IH)
qed

lemma parseYAML_string_nonempty:
  assumes "map_of (parseYAML yaml) k = Some (YamlString v)"
  shows "v \<noteq> []"
proof -
  have "strings_nonempty (parseYAML yaml)"
    unfolding parseYAML_def by (rule fold_parseLine_nonempty) (simp add: strings_nonempty_def)
  moreover have "(k, YamlString v) \<in> set (parseYAML yaml)"
    using assms by (rule map_of_SomeD)
  ultimately show ?thesis by (auto simp: strings_nonempty_def)
qed

lemma checkName_string:
  assumes "map_of fm ''name'' = Some (YamlString n)" and "n \<noteq> []"
  shows "checkName fm st =
           push_error_if (length n > 64) nameLengthError
             (push_error_if (\<not> regex_test namePattern n) nameFormatError st)"
  using assms by (simp add: checkName_def yaml_truthy_def yaml_length_def yaml_to_string_def)

lemma checkDescription_string:
  assumes "map_of fm ''description'' = Some (YamlString d)" and "d \<noteq> []"
  shows "checkDescription fm st =
           push_warning_if (length d < 50) descriptionShortWarning
             (push_error_if (length d > 1024) descriptionLengthError st)"
  using assms by (simp add: checkDescription_def yaml_truthy_def yaml_length_def)

lemma checkDescription_extends: "extends a st \<Longrightarrow> extends a (checkDescription fm st)"
  by (auto simp: checkDescription_def intro!: extends_intros split: option.splits)

lemma validateClaude_after_checks:
  assumes "readFile fs (skillPath dirPath) = Inr content"
    and "frontmatterMatch content = Some yaml"
  shows "extends (checkDescription (parseYAML yaml) (checkName (parseYAML yaml) st))
           (snd (validateClaude L fs dirPath st))"
proof -
  let ?st1 = "checkDescription (parseYAML yaml) (checkName (parseYAML yaml) st)"
  have ex: "fileExists fs (skillPath dirPath)"
    using assms(1) by (auto simp: fileExists_def readFile_def split: option.splits node.splits)
  have m: "extends ?st1 (snd (validateMarketplaceJSON L fs (marketplacePath dirPath) ?st1))"
    by (rule validateMarketplaceJSON_extends) simp
  obtain t st2 where v: "validateMarketplaceJSON L fs (marketplacePath dirPath) ?st1 = (t, st2)"
    by (cases "validateMarketplaceJSON L fs (marketplacePath dirPath) ?st1")
  from m v have "extends ?st1 st2" by simp
  then show ?thesis
    using ex assms v
    by (auto simp: validateClaude_def Let_def intro!: extends_intros split: option.splits)
qed

lemma validate_valid_iff: "valid (validate L fs dirPath pf) \<longleftrightarrow> val_errors (validate L fs dirPath pf) = []"
  by (auto simp: validate_def validation_failed_def split: prod.splits option.splits if_splits)

lemma validate_extends:
  assumes "pf = ''claude'' \<or> pf = ''universal''"
  shows "prefix (fst (snd (validateClaude L fs dirPath ([], [])))) (val_errors (validate L fs dirPath pf))
       \<and> prefix (snd (snd (validateClaude L fs dirPath ([], [])))) (val_warnings (validate L fs dirPath pf))"
proof -
  obtain t st where vc: "validateClaude L fs dirPath ([], []) = (t, st)"
    by (cases "validateClaude L fs dirPath ([], [])")
  have g: "extends st (snd (validateGemini L fs dirPath st))"
    by (rule validateGemini_extends) simp
  obtain t' st' where vg: "validateGemini L fs dirPath st = (t', st')"
    by (cases "validateGemini L fs dirPath st")
  from g vg have "extends st st'" by simp
  then show ?thesis
    using assms vc vg
    by (auto simp: validate_def validation_failed_def platform_name_def extends_def
             split: option.splits)
qed

lemma clean_push:
  "clean st \<Longrightarrow> other_message msg \<Longrightarrow> clean (push_error msg st)"
  "clean st \<Longrightarrow> other_message msg \<Longrightarrow> clean (push_error_if b msg st)"
  "clean st \<Longrightarrow> clean (push_warning msg st)"
  "clean st \<Longrightarrow> clean (push_warning_if b msg st)"
  by (auto simp: clean_def)

lemma other_Cons:
  "c \<noteq> CHR ''D'' \<Longrightarrow> c \<noteq> CHR ''S'' \<Longrightarrow> other_message (c # m)"
  by (auto simp: other_message_def descriptionLengthError_def descriptionMissingError_def)

lemma other_Cons2:
  "c \<noteq> CHR ''K'' \<Longrightarrow> other_message (CHR ''S'' # c # m)"
  by (auto simp: other_message_def descriptionLengthError_def descriptionMissingError_def)

lemma checkPlugins_clean: "clean st \<Longrightarrow> clean (checkPlugins i ps st)"
proof (induction ps arbitrary: i st)
  case Nil
  then show ?case by simp
next
  case (Cons p ps)
  show ?case
    unfolding checkPlugins.simps
    by (intro Cons.IH clean_push Cons.prems) (simp_all add: other_Cons)
qed

lemma checkServers_clean: "clean st \<Longrightarrow> clean (checkServers L cs st)"
proof (induction cs arbitrary: st)
  case Nil
  then show ?case by simp
next
  case (Cons c cs)
  obtain n config where c: "c = (n, config)" by (cases c)
  show ?case
    unfolding c checkServers.simps
    by (intro Cons.IH clean_push Cons.prems) (simp_all add: other_Cons)
qed

lemma checkSettings_clean: "clean st \<Longrightarrow> clean (checkSettings i xs st)"
proof (induction xs arbitrary: i st)
  case Nil
  then show ?case by simp
next
  case (Cons x xs)
  show ?case
    unfolding checkSettings.simps
    by (intro Cons.IH clean_push Cons.prems) (simp_all add: other_Cons2)
qed

lemma checkSettingsValue_clean: "clean st \<Longrightarrow> clean (checkSettingsValue v st)"
  by (auto simp: checkSettingsValue_def other_Cons
           intro!: clean_push checkSettings_clean
           split: option.splits settings_value.splits)

lemma checkExcludeValue_clean: "clean st \<Longrightarrow> clean (checkExcludeValue v st)"
  by (auto simp: checkExcludeValue_def other_Cons intro!: clean_push
           split: option.splits exclude_value.splits)

lemmas clean_intros =
  clean_push checkPlugins_clean checkServers_clean checkSettings_clean
  checkSettingsValue_clean checkExcludeValue_clean

lemma validateMarketplaceJSON_clean:
  "clean st \<Longrightarrow> clean (snd (validateMarketplaceJSON L fs p st))"
  by (auto simp: validateMarketplaceJSON_def Let_def other_Cons intro!: clean_intros
           split: sum.splits parsed.splits option.splits plugins_value.splits)

lemma validateGemini_clean:
  "clean st \<Longrightarrow> clean (snd (validateGemini L fs p st))"
  by (auto simp: validateGemini_def Let_def other_Cons intro!: clean_intros
           split: sum.splits parsed.splits option.splits)

lemma checkName_clean: "clean st \<Longrightarrow> clean (checkName fm st)"
proof -
  have "other_message ''SKILL.md frontmatter missing required field: name''"
    by (simp add: other_message_def descriptionLengthError_def descriptionMissingError_def)
  moreover have "other_message nameLengthError" "other_message nameFormatError"
    by (simp_all add: nameLengthError_def nameFormatError_def other_Cons2)
  moreover assume "clean st"
  ultimately show ?thesis
    by (auto simp: checkName_def intro!: clean_intros split: option.splits)
qed

lemma validateClaude_clean:
  assumes "readFile fs (skillPath dirPath) = Inr content"
    and "frontmatterMatch content = Some yaml"
    and "clean (checkDescription (parseYAML yaml) (checkName (parseYAML yaml) st))"
  shows "clean (snd (validateClaude L fs dirPath st))"
proof -
  let ?st1 = "checkDescription (parseYAML yaml) (checkName (parseYAML yaml) st)"
  have ex: "fileExists fs (skillPath dirPath)"
    using assms(1) by (auto simp: fileExists_def readFile_def split: option.splits node.splits)
  have m: "clean (snd (validateMarketplaceJSON L fs (marketplacePath dirPath) ?st1))"
    by (rule validateMarketplaceJSON_clean) (rule assms(3))
  obtain t st2 where v: "validateMarketplaceJSON L fs (marketplacePath dirPath) ?st1 = (t, st2)"
    by (cases "validateMarketplaceJSON L fs (marketplacePath dirPath) ?st1")
  from m v have "clean st2" by simp
  then show ?thesis
    using ex assms v
    by (auto simp: validateClaude_def Let_def intro!: clean_intros split: option.splits)
qed

lemma validate_clean:
  assumes "clean (snd (validateClaude L fs dirPath ([], [])))"
  shows "\<forall>m \<in> set (val_errors (validate L fs dirPath pf)). other_message m"
proof -
  have e: "clean ([], [])" by (simp add: clean_def)
  obtain t st where vc: "validateClaude L fs dirPath ([], []) = (t, st)"
    by (cases "validateClaude L fs dirPath ([], [])")
  with assms have st: "clean st" by simp
  obtain t' st' where vg: "validateGemini L fs dirPath st = (t', st')"
    by (cases "validateGemini L fs dirPath st")
  have "clean (snd (validateGemini L fs dirPath st))"
    by (rule validateGemini_clean) (rule st)
  with vg have st': "clean st'" by simp
  obtain t'' st'' where vg0: "validateGemini L fs dirPath ([], []) = (t'', st'')"
    by (cases "validateGemini L fs dirPath ([], [])")
  have "clean (snd (validateGemini L fs dirPath ([], [])))"
    by (rule validateGemini_clean) (rule e)
  with vg0 have st'': "clean st''" by simp
  have vf: "other_message (''Validation failed: '' @ x)" for x
    by (simp add: other_Cons)
  show ?thesis
    using vc vg vg0 st st' st'' e vf
    by (auto simp: validate_def validation_failed_def clean_def split: option.splits if_splits)
qed

text \<open>
  Claim C7: in a validation run for schema A (platform \<open>claude\<close> or \<open>universal\<close>) on an
  entry document with a metadata block: a name with a character outside lower case
  letters, digits and hyphens gives the naming error; a name of more than 64
  characters gives the length error; a description of more than 1024 characters gives
  an error, one of fewer than 50 characters gives the warning and no error of the
  description rule; and the result is valid exactly when its list of errors is empty.
  Name and description are the strings the minimal parser reads from the block.
\<close>

theorem schemaA_validation_rules:
  assumes pf: "pf = ''claude'' \<or> pf = ''universal''"
    and rd: "readFile fs (skillPath dirPath) = Inr content"
    and fm: "frontmatterMatch content = Some yaml"
  shows
   "(\<forall>n. map_of (parseYAML yaml) ''name'' = Some (YamlString n) \<longrightarrow>
        ((\<exists>c \<in> set n. c \<notin> set ''abcdefghijklmnopqrstuvwxyz0123456789-'') \<longrightarrow>
           nameFormatError \<in> set (val_errors (validate L fs dirPath pf)))
      \<and> (length n > 64 \<longrightarrow>
           nameLengthError \<in> set (val_errors (validate L fs dirPath pf))))
    \<and> (\<forall>d. map_of (parseYAML yaml) ''description'' = Some (YamlString d) \<longrightarrow>
        (length d > 1024 \<longrightarrow>
           descriptionLengthError \<in> set (val_errors (validate L fs dirPath pf)))
      \<and> (length d < 50 \<longrightarrow>
           descriptionShortWarning \<in> set (val_warnings (validate L fs dirPath pf))
           \<and> descriptionLengthError \<notin> set (val_errors (validate L fs dirPath pf))
           \<and> descriptionMissingError \<notin> set (val_errors (validate L fs dirPath pf))))
    \<and> (valid (validate L fs dirPath pf) \<longleftrightarrow> val_errors (validate L fs dirPath pf) = [])"
proof -
  let ?fm = "parseYAML yaml"
  let ?r = "validate L fs dirPath pf"
  let ?st0 = "([], []) :: vstate"
  let ?st1 = "checkDescription ?fm (checkName ?fm ?st0)"
  let ?st2 = "snd (validateClaude L fs dirPath ?st0)"
  have after: "extends ?st1 ?st2"
    by (rule validateClaude_after_checks [OF rd fm])
  from validate_extends [OF pf, of L fs dirPath]
  have fin: "prefix (fst ?st2) (val_errors ?r)" "prefix (snd ?st2) (val_warnings ?r)"
    by simp_all
  have errs: "set (fst ?st1) \<subseteq> set (val_errors ?r)"
    using after fin(1) by (auto simp: extends_def dest!: set_mono_prefix)
  have warns: "set (snd ?st1) \<subseteq> set (val_warnings ?r)"
    using after fin(2) by (auto simp: extends_def dest!: set_mono_prefix)
  have name_errs: "set (fst (checkName ?fm ?st0)) \<subseteq> set (val_errors ?r)"
    using checkDescription_extends [of "checkName ?fm ?st0" "checkName ?fm ?st0" ?fm] errs
    by (auto simp: extends_def dest!: set_mono_prefix)
  have name_part: "((\<exists>c \<in> set n. c \<notin> set ''abcdefghijklmnopqrstuvwxyz0123456789-'') \<longrightarrow>
           nameFormatError \<in> set (val_errors ?r))
      \<and> (length n > 64 \<longrightarrow> nameLengthError \<in> set (val_errors ?r))"
    if n: "map_of ?fm ''name'' = Some (YamlString n)" for n
  proof -
    have ne: "n \<noteq> []" by (rule parseYAML_string_nonempty [OF n])
    have bad: "nameFormatError \<in> set (fst (checkName ?fm ?st0))"
      if "\<exists>c \<in> set n. c \<notin> set ''abcdefghijklmnopqrstuvwxyz0123456789-''"
      using that unfolding checkName_string [OF n ne] regex_test_namePattern by auto
    have long: "nameLengthError \<in> set (fst (checkName ?fm ?st0))" if "length n > 64"
      using that unfolding checkName_string [OF n ne] by simp
    from bad long name_errs show ?thesis by blast
  qed
  have description_part: "(length d > 1024 \<longrightarrow> descriptionLengthError \<in> set (val_errors ?r))
      \<and> (length d < 50 \<longrightarrow>
           descriptionShortWarning \<in> set (val_warnings ?r)
           \<and> descriptionLengthError \<notin> set (val_errors ?r)
           \<and> descriptionMissingError \<notin> set (val_errors ?r))"
    if d: "map_of ?fm ''description'' = Some (YamlString d)" for d
  proof -
    have ne: "d \<noteq> []" by (rule parseYAML_string_nonempty [OF d])
    have long: "descriptionLengthError \<in> set (fst ?st1)" if "length d > 1024"
      using that unfolding checkDescription_string [OF d ne] by simp
    have short: "descriptionShortWarning \<in> set (snd ?st1)" if "length d < 50"
      using that unfolding checkDescription_string [OF d ne] by simp
    have none: "descriptionLengthError \<notin> set (val_errors ?r)
                \<and> descriptionMissingError \<notin> set (val_errors ?r)" if "length d < 50"
    proof -
      have "clean (checkName ?fm ?st0)"
        by (rule checkName_clean) (simp add: clean_def)
      then have "clean ?st1"
        using that unfolding checkDescription_string [OF d ne] by (simp add: clean_def)
      then have "clean ?st2"
        by (rule validateClaude_clean [OF rd fm])
      from validate_clean [OF this, of pf] show ?thesis
        by (auto simp: other_message_def)
    qed
    from long short none errs warns show ?thesis by blast
  qed
  from name_part description_part validate_valid_iff [of L fs dirPath pf]
  show ?thesis by blast
qed

lemma my_skill_run:
  "validate fixed_libs
     (Map.empty([''skills''] \<mapsto> Dir,
        [''skills'', ''my-skill''] \<mapsto> Dir,
        [''skills'', ''my-skill'', ''SKILL.md''] \<mapsto>
          File ''---\<newline>name: My-Skill\<newline>description: Formats code with prettier and eslint.\<newline>---\<newline>\<newline># Formatter\<newline>''))
     [''skills'', ''my-skill''] ''claude''
   = \<lparr>valid = False,
      val_errors = [nameFormatError],
      val_warnings = [descriptionShortWarning,
        ''Missing .claude-plugin/marketplace.json (recommended for MCP server integration)'']\<rparr>"
  by code_simp

lemma short_description_run:
  "validate fixed_libs
     (Map.empty([''skills''] \<mapsto> Dir,
        [''skills'', ''my-skill''] \<mapsto> Dir,
        [''skills'', ''my-skill'', ''SKILL.md''] \<mapsto>
          File ''---\<newline>name: my-skill\<newline>description: Formats code with prettier and eslint.\<newline>---\<newline>\<newline># Formatter\<newline>''))
     [''skills'', ''my-skill''] ''claude''
   = \<lparr>valid = True,
      val_errors = [],
      val_warnings = [descriptionShortWarning,
        ''Missing .claude-plugin/marketplace.json (recommended for MCP server integration)'']\<rparr>"
  by code_simp

theorem schemaA_validation_rules_witness:
  "readFile
     (Map.empty([''skills''] \<mapsto> Dir,
        [''skills'', ''my-skill''] \<mapsto> Dir,
        [''skills'', ''my-skill'', ''SKILL.md''] \<mapsto>
          File ''---\<newline>name: My-Skill\<newline>description: Formats code with prettier and eslint.\<newline>---\<newline>\<newline># Formatter\<newline>''))
     (skillPath [''skills'', ''my-skill''])
     = Inr ''---\<newline>name: My-Skill\<newline>description: Formats code with prettier and eslint.\<newline>---\<newline>\<newline># Formatter\<newline>''
   \<and> frontmatterMatch ''---\<newline>name: My-Skill\<newline>description: Formats code with prettier and eslint.\<newline>---\<newline>\<newline># Formatter\<newline>''
     = Some ''name: My-Skill\<newline>description: Formats code with prettier and eslint.''
   \<and> map_of (parseYAML ''name: My-Skill\<newline>description: Formats code with prettier and eslint.'') ''name''
     = Some (YamlString ''My-Skill'')
   \<and> CHR ''M'' \<in> set ''My-Skill''
   \<and> CHR ''M'' \<notin> set ''abcdefghijklmnopqrstuvwxyz0123456789-''
   \<and> nameFormatError \<in> set (val_errors (validate fixed_libs
        (Map.empty([''skills''] \<mapsto> Dir,
           [''skills'', ''my-skill''] \<mapsto> Dir,
           [''skills'', ''my-skill'', ''SKILL.md''] \<mapsto>
             File ''---\<newline>name: My-Skill\<newline>description: Formats code with prettier and eslint.\<newline>---\<newline>\<newline># Formatter\<newline>''))
        [''skills'', ''my-skill''] ''claude''))
   \<and> map_of (parseYAML ''name: My-Skill\<newline>description: Formats code with prettier and eslint.'') ''description''
     = Some (YamlString ''Formats code with prettier and eslint.'')
   \<and> length ''Formats code with prettier and eslint.'' < 50
   \<and> descriptionShortWarning \<in> set (val_warnings (validate fixed_libs
        (Map.empty([''skills''] \<mapsto> Dir,
           [''skills'', ''my-skill''] \<mapsto> Dir,
           [''skills'', ''my-skill'', ''SKILL.md''] \<mapsto>
             File ''---\<newline>name: My-Skill\<newline>description: Formats code with prettier and eslint.\<newline>---\<newline>\<newline># Formatter\<newline>''))
        [''skills'', ''my-skill''] ''claude''))"
proof -
  let ?content = "''---\<newline>name: My-Skill\<newline>description: Formats code with prettier and eslint.\<newline>---\<newline>\<newline># Formatter\<newline>''"
  let ?fs = "Map.empty([''skills''] \<mapsto> Dir,
        [''skills'', ''my-skill''] \<mapsto> Dir,
        [''skills'', ''my-skill'', ''SKILL.md''] \<mapsto> File ?content)"
  let ?yaml = "''name: My-Skill\<newline>description: Formats code with prettier and eslint.''"
  have rd: "readFile ?fs (skillPath [''skills'', ''my-skill'']) = Inr ?content"
    by (simp add: readFile_def lookup_def skillPath_def)
  have fm: "frontmatterMatch ?content = Some ?yaml"
    by code_simp
  have nm: "map_of (parseYAML ?yaml) ''name'' = Some (YamlString ''My-Skill'')"
    by code_simp
  have ds: "map_of (parseYAML ?yaml) ''description''
              = Some (YamlString ''Formats code with prettier and eslint.'')"
    by code_simp
  have bad: "\<exists>c \<in> set ''My-Skill''. c \<notin> set ''abcdefghijklmnopqrstuvwxyz0123456789-''"
    by (rule bexI [of _ "CHR ''M''"]) simp_all
  have sh: "length ''Formats code with prettier and eslint.'' < 50"
    by simp
  note rules = schemaA_validation_rules
                 [of "''claude''" ?fs "[''skills'', ''my-skill'']" ?content ?yaml fixed_libs,
                  OF disjI1 [OF refl] rd fm]
  from rules nm bad have e: "nameFormatError \<in> set (val_errors (validate fixed_libs ?fs
        [''skills'', ''my-skill''] ''claude''))"
    by blast
  from rules ds sh have w: "descriptionShortWarning \<in> set (val_warnings (validate fixed_libs ?fs
        [''skills'', ''my-skill''] ''claude''))"
    by blast
  from rd fm nm ds e w show ?thesis
    by simp
qed

section \<open>Properties of the main module\<close>



end
